theory Spec2Isabelle
  imports Main "HOL-Library.Sublist" "HOL-Library.AList" "HOL-Library.Word"
begin

section \<open>Shared values\<close>

text \<open>
  Exceptions are values. Every function that can throw returns \<open>error + 'a\<close>, with
  \<open>Inl\<close> the exception; where the source mutates an argument by reference before
  it throws, the mutated argument is returned beside the result.
\<close>

datatype error =
    OutOfRange
  | YamlBadConversion
  | YamlException string
  | DownloadException string
  | InvalidWorkflowException string
  | WorkflowMinimumException string string
  | OtherException string

text \<open>\<open>MemorySize\<close>: a byte count; \<open>operator<\<close> compares the byte counts.\<close>

datatype MemorySize = MemorySize (in_bytes: nat)

definition mem_less :: "MemorySize \<Rightarrow> MemorySize \<Rightarrow> bool" where
  "mem_less a b = (in_bytes a < in_bytes b)"

text \<open>A YAML node of yaml-cpp, as a tree.\<close>

datatype yaml = YNull | YScalar string | YSeq "yaml list" | YMap "(yaml \<times> yaml) list"

fun IsScalar :: "yaml \<Rightarrow> bool" where
  "IsScalar (YScalar s) = True"
| "IsScalar y = False"

fun Scalar :: "yaml \<Rightarrow> string" where
  "Scalar (YScalar s) = s"
| "Scalar y = []"

record NetworkInterface =
  iface_id :: string
  mac_address :: string
  auto_mode :: bool

text \<open>
  \<open>VirtualMachineDescription\<close>, with the fields the sources and the specification name.
  \<open>vendor_data_config\<close> is a YAML map: an association list from scalar keys to nodes.
\<close>

record VirtualMachineDescription =
  num_cores :: int
  mem_size :: MemorySize
  disk_space :: MemorySize
  vm_name :: string
  default_mac_address :: string
  extra_interfaces :: "NetworkInterface list"
  vendor_data_config :: "(string \<times> yaml) list"

section \<open>The workflow provider (default\_vm\_workflow\_provider.cpp)\<close>

datatype QueryType = Alias | LocalFile | HttpDownload

text \<open>
  \<open>Query{"", "", false, "", Query::Type::Alias}\<close>: five fields in this order. The tests
  name the second \<open>release\<close> and the fourth \<open>remote_name\<close>.
\<close>

record Query =
  query_name :: string
  release :: string
  persistent :: bool
  remote_name :: string
  query_type :: QueryType

text \<open>
  What \<open>YAML::Node::as<T>()\<close> gives for a defined node: the converted value, or the
  exception \<open>YAML::BadConversion\<close>.
\<close>

datatype 'a conv = BadConversion | Converted 'a

text \<open>
  The node \<open>YAML::Load(config)["instances"][workflow_name]\<close> as far as
  \<open>fetch_workflow_for\<close> reads it. A field is \<open>None\<close> when the node tests false
  (\<open>if (workflow_instance["image"])\<close>), and otherwise holds what the conversion the source
  applies to it gives: \<open>as<std::string>()\<close> for \<open>image\<close>, \<open>min-mem\<close> and
  \<open>min-disk\<close>, \<open>as<int>()\<close> for \<open>min-cpu\<close>. \<open>cloud_init\<close> holds the key and
  value nodes the loop over \<open>workflow_instance["cloud-init"]\<close> visits, in order.
\<close>

record workflow_instance =
  wf_image :: "string conv option"
  min_cpu :: "int conv option"
  min_mem :: "string conv option"
  min_disk :: "string conv option"
  cloud_init :: "(yaml \<times> yaml) list option"

text \<open>
  Code of the repository and of its libraries that \<open>fetch_workflow_for\<close> calls and that
  is not part of the sources at hand, taken as parameters:
  \<^item> \<open>split\<close> is \<open>mp::utils::split(string, delimiter)\<close>;
  \<^item> \<open>load_instance config workflow_name\<close> is the YAML parse and the subscripts
    that lead to the \<open>workflow_instance\<close> above, \<open>Inl\<close> with the exception's
    \<open>what()\<close> when yaml-cpp throws there;
  \<^item> \<open>memory_size\<close> is the constructor \<open>MemorySize{string}\<close>, \<open>None\<close> when it
    throws \<open>InvalidMemorySizeException\<close>.
\<close>

record externals =
  split :: "string \<Rightarrow> string \<Rightarrow> string list"
  load_instance :: "string \<Rightarrow> string \<Rightarrow> string + workflow_instance"
  memory_size :: "string \<Rightarrow> MemorySize option"

subsection \<open>\<open>std::to_string(int)\<close>\<close>

definition digit_char :: "nat \<Rightarrow> char" where
  "digit_char d = ''0123456789'' ! d"

function string_of_nat :: "nat \<Rightarrow> string" where
  "string_of_nat n =
     (if n < 10 then [digit_char n] else string_of_nat (n div 10) @ [digit_char (n mod 10)])"
  by pat_completeness auto
termination
  by (relation "measure (\<lambda>n. n)") auto

definition to_string :: "int \<Rightarrow> string" where
  "to_string i = (if i < 0 then CHR ''-'' # string_of_nat (nat (- i)) else string_of_nat (nat i))"

subsection \<open>\<open>fetch_workflow_for\<close>, block by block\<close>

text \<open>Lines 105-125: the \<open>image\<close> field sets the query.\<close>

definition resolve_image :: "externals \<Rightarrow> workflow_instance \<Rightarrow> Query \<Rightarrow> error + Query" where
  "resolve_image ext wi query =
     (case wf_image wi of
        None \<Rightarrow> Inr query
      | Some BadConversion \<Rightarrow> Inl YamlBadConversion
      | Some (Converted image_str) \<Rightarrow>
          (let tokens = split ext image_str '':'' in
           if length tokens = 2 then
             Inr (query\<lparr>remote_name := tokens ! 0, release := tokens ! 1\<rparr>)
           else if length tokens = 1 then
             Inr (query\<lparr>release := tokens ! 0\<rparr>)
           else Inl (InvalidWorkflowException ''Unsupported image scheme in Workflow'')))"

text \<open>
  Lines 127-146: \<open>min-cpu\<close>. Each of the three blocks returns its exception, if any, and
  the description as the block leaves it (the description is a reference argument).
\<close>

definition apply_min_cpu ::
  "workflow_instance \<Rightarrow> VirtualMachineDescription \<Rightarrow> error option \<times> VirtualMachineDescription" where
  "apply_min_cpu wi vm_desc =
     (case min_cpu wi of
        None \<Rightarrow> (None, vm_desc)
      | Some BadConversion \<Rightarrow>
          (Some (InvalidWorkflowException ''Minimum CPU value in workflow is invalid''), vm_desc)
      | Some (Converted min_cpus) \<Rightarrow>
          if num_cores vm_desc = 0 then (None, vm_desc\<lparr>num_cores := min_cpus\<rparr>)
          else if num_cores vm_desc < min_cpus then
            (Some (WorkflowMinimumException ''Number of CPUs'' (to_string min_cpus)), vm_desc)
          else (None, vm_desc))"

text \<open>Lines 148-169: \<open>min-mem\<close>.\<close>

definition apply_min_mem ::
  "externals \<Rightarrow> workflow_instance \<Rightarrow> VirtualMachineDescription \<Rightarrow>
   error option \<times> VirtualMachineDescription" where
  "apply_min_mem ext wi vm_desc =
     (case min_mem wi of
        None \<Rightarrow> (None, vm_desc)
      | Some BadConversion \<Rightarrow> (Some YamlBadConversion, vm_desc)
      | Some (Converted min_mem_size_str) \<Rightarrow>
          (case memory_size ext min_mem_size_str of
             None \<Rightarrow>
               (Some (InvalidWorkflowException
                        ''Minimum memory size value in workflow is invalid''), vm_desc)
           | Some min_mem_size \<Rightarrow>
               if in_bytes (mem_size vm_desc) = 0 then
                 (None, vm_desc\<lparr>mem_size := min_mem_size\<rparr>)
               else if mem_less (mem_size vm_desc) min_mem_size then
                 (Some (WorkflowMinimumException ''Memory size'' min_mem_size_str), vm_desc)
               else (None, vm_desc)))"

text \<open>Lines 171-192: \<open>min-disk\<close>.\<close>

definition apply_min_disk ::
  "externals \<Rightarrow> workflow_instance \<Rightarrow> VirtualMachineDescription \<Rightarrow>
   error option \<times> VirtualMachineDescription" where
  "apply_min_disk ext wi vm_desc =
     (case min_disk wi of
        None \<Rightarrow> (None, vm_desc)
      | Some BadConversion \<Rightarrow> (Some YamlBadConversion, vm_desc)
      | Some (Converted min_disk_space_str) \<Rightarrow>
          (case memory_size ext min_disk_space_str of
             None \<Rightarrow>
               (Some (InvalidWorkflowException
                        ''Minimum disk space value in workflow is invalid''), vm_desc)
           | Some min_disk_space \<Rightarrow>
               if in_bytes (disk_space vm_desc) = 0 then
                 (None, vm_desc\<lparr>disk_space := min_disk_space\<rparr>)
               else if mem_less (disk_space vm_desc) min_disk_space then
                 (Some (WorkflowMinimumException ''Disk space'' min_disk_space_str), vm_desc)
               else (None, vm_desc)))"

text \<open>
  Lines 194-203: every scalar key of \<open>cloud-init\<close> is assigned into
  \<open>vendor_data_config\<close> (an existing key keeps its place, a new one is appended).
\<close>

fun apply_cloud_init_nodes ::
  "(yaml \<times> yaml) list \<Rightarrow> (string \<times> yaml) list \<Rightarrow> (string \<times> yaml) list" where
  "apply_cloud_init_nodes [] cfg = cfg"
| "apply_cloud_init_nodes ((first, second) # nodes) cfg =
     apply_cloud_init_nodes nodes
       (if IsScalar first then AList.update (Scalar first) second cfg else cfg)"

definition apply_cloud_init ::
  "workflow_instance \<Rightarrow> VirtualMachineDescription \<Rightarrow> VirtualMachineDescription" where
  "apply_cloud_init wi vm_desc =
     (case cloud_init wi of
        None \<Rightarrow> vm_desc
      | Some nodes \<Rightarrow>
          vm_desc\<lparr>vendor_data_config := apply_cloud_init_nodes nodes (vendor_data_config vm_desc)\<rparr>)"

text \<open>
  Lines 127-192 together: the three blocks run in the order of the source, and the first
  exception ends the call, leaving the description as mutated so far.
\<close>

definition apply_limits ::
  "externals \<Rightarrow> workflow_instance \<Rightarrow> VirtualMachineDescription \<Rightarrow>
   error option \<times> VirtualMachineDescription" where
  "apply_limits ext wi vm_desc =
     (case apply_min_cpu wi vm_desc of
        (Some e, d1) \<Rightarrow> (Some e, d1)
      | (None, d1) \<Rightarrow>
          (case apply_min_mem ext wi d1 of
             (Some e, d2) \<Rightarrow> (Some e, d2)
           | (None, d2) \<Rightarrow> apply_min_disk ext wi d2))"

text \<open>Lines 99-205 for a loaded workflow instance.\<close>

definition initial_query :: Query where
  "initial_query =
     \<lparr>query_name = [], release = [], persistent = False, remote_name = [], query_type = Alias\<rparr>"

definition fetch_from_instance ::
  "externals \<Rightarrow> workflow_instance \<Rightarrow> VirtualMachineDescription \<Rightarrow>
   (error + Query) \<times> VirtualMachineDescription" where
  "fetch_from_instance ext wi vm_desc =
     (case resolve_image ext wi initial_query of
        Inl e \<Rightarrow> (Inl e, vm_desc)
      | Inr query \<Rightarrow>
          (case apply_limits ext wi vm_desc of
             (Some e, d) \<Rightarrow> (Inl e, d)
           | (None, d) \<Rightarrow> (Inr query, apply_cloud_init wi d)))"

subsection \<open>The cached archive\<close>

text \<open>
  An entry of the downloaded zip archive: \<open>isFile()\<close>, \<open>getFileName()\<close> and the bytes
  the entry's stream gives.
\<close>

record zip_entry =
  isFile :: bool
  getFileName :: string
  contents :: string

text \<open>
  \<open>QFileInfo\<close> on an entry's name, after the Qt documentation: \<open>path()\<close> is the name
  without its last component (\<open>.\<close> when it has no directory), \<open>suffix()\<close> what
  follows the last dot of the last component, \<open>baseName()\<close> the last component up to
  its first dot.
\<close>

definition qfi_fileName :: "string \<Rightarrow> string" where
  "qfi_fileName f = rev (takeWhile (\<lambda>c. c \<noteq> CHR ''/'') (rev f))"

definition qfi_path :: "string \<Rightarrow> string" where
  "qfi_path f =
     (if CHR ''/'' \<notin> set f then ''.''
      else let dir = rev (drop 1 (dropWhile (\<lambda>c. c \<noteq> CHR ''/'') (rev f)))
           in if dir = [] then ''/'' else dir)"

definition qfi_suffix :: "string \<Rightarrow> string" where
  "qfi_suffix f =
     (let n = qfi_fileName f
      in if CHR ''.'' \<in> set n then rev (takeWhile (\<lambda>c. c \<noteq> CHR ''.'') (rev n)) else [])"

definition qfi_baseName :: "string \<Rightarrow> string" where
  "qfi_baseName f = takeWhile (\<lambda>c. c \<noteq> CHR ''.'') (qfi_fileName f)"

definition workflow_dir_version :: string where
  "workflow_dir_version = ''v1''"

text \<open>Lines 49-74: \<open>workflows_map_for\<close>, over the archive's entries in order.\<close>

fun workflows_map_entries :: "zip_entry list \<Rightarrow> (string \<rightharpoonup> string) \<Rightarrow> (string \<rightharpoonup> string)" where
  "workflows_map_entries [] workflows_map = workflows_map"
| "workflows_map_entries (it # rest) workflows_map =
     workflows_map_entries rest
       (if isFile it \<and> sublist workflow_dir_version (qfi_path (getFileName it)) \<and>
           (qfi_suffix (getFileName it) = ''yaml'' \<or> qfi_suffix (getFileName it) = ''yml'')
        then workflows_map(qfi_baseName (getFileName it) \<mapsto> contents it)
        else workflows_map)"

definition workflows_map_for :: "zip_entry list \<Rightarrow> (string \<rightharpoonup> string)" where
  "workflows_map_for archive = workflows_map_entries archive Map.empty"

text \<open>
  What one call of \<open>url_downloader->download_to\<close> followed by reading the archive does:
  the archive is there with its entries, or \<open>download_to\<close> threw
  \<open>DownloadException\<close> (with its \<open>what()\<close>), or something else was thrown.
\<close>

datatype fetch_outcome =
    Downloaded "zip_entry list"
  | DownloadFailed string
  | OtherFailure string

text \<open>What the provider does to its collaborators, in order.\<close>

datatype effect =
    DownloadTo string string
  | LogError string string

record provider =
  workflows_url :: string
  archive_file_path :: string
  workflows_ttl :: "64 word"
  last_update :: "64 word"
  workflow_map :: "string \<rightharpoonup> string"
  trace :: "effect list"

definition category :: string where
  "category = ''workflow provider''"

text \<open>Lines 242-247: \<open>fetch_workflows\<close>.\<close>

definition fetch_workflows :: "fetch_outcome \<Rightarrow> provider \<Rightarrow> error option \<times> provider" where
  "fetch_workflows dl p =
     (let p1 = p\<lparr>trace := trace p @ [DownloadTo (workflows_url p) (archive_file_path p)]\<rparr>
      in case dl of
           DownloadFailed what \<Rightarrow> (Some (DownloadException what), p1)
         | OtherFailure what \<Rightarrow> (Some (OtherException what), p1)
         | Downloaded archive \<Rightarrow> (None, p1\<lparr>workflow_map := workflows_map_for archive\<rparr>))"

text \<open>
  Lines 249-264: \<open>update_workflows\<close>. \<open>workflows_ttl\<close> is the
  \<open>std::chrono::milliseconds\<close> given to the constructor (lines 79-83); \<open>now\<close> and
  \<open>last_update\<close> are time points of \<open>std::chrono::steady_clock\<close>, which counts
  nanoseconds. Both kinds of duration hold their count in a signed 64-bit integer, read
  here with \<open>sint\<close>. \<open>now - last_update\<close> subtracts the two counts. \<open>operator>\<close> of
  line 252 compares in the common type of its operands, nanoseconds, so the TTL's count is
  first multiplied by 1000000 in 64 bits. C++ leaves an overflow of these two operations
  undefined; the compiled code wraps around, and so do \<open>-\<close> and \<open>*\<close> on words.
\<close>

definition update_workflows ::
  "64 word \<Rightarrow> fetch_outcome \<Rightarrow> provider \<Rightarrow> error option \<times> provider" where
  "update_workflows now dl p =
     (if sint (now - last_update p) > sint (workflows_ttl p * 1000000) then
        (case fetch_workflows dl p of
           (None, p1) \<Rightarrow> (None, p1\<lparr>last_update := now\<rparr>)
         | (Some (DownloadException what), p1) \<Rightarrow>
             (None, p1\<lparr>trace := trace p1 @
                      [LogError category (''Error fetching workflows: '' @ what)]\<rparr>)
         | (Some e, p1) \<Rightarrow> (Some e, p1))
      else (None, p))"

text \<open>Lines 94-206: \<open>fetch_workflow_for\<close>.\<close>

definition fetch_workflow_for ::
  "externals \<Rightarrow> 64 word \<Rightarrow> fetch_outcome \<Rightarrow> string \<Rightarrow> VirtualMachineDescription \<Rightarrow>
   provider \<Rightarrow> (error + Query) \<times> VirtualMachineDescription \<times> provider" where
  "fetch_workflow_for ext now dl workflow_name vm_desc p =
     (case update_workflows now dl p of
        (Some e, p1) \<Rightarrow> (Inl e, vm_desc, p1)
      | (None, p1) \<Rightarrow>
          (case workflow_map p1 workflow_name of
             None \<Rightarrow> (Inl OutOfRange, vm_desc, p1)
           | Some config \<Rightarrow>
               (case load_instance ext config workflow_name of
                  Inl what \<Rightarrow> (Inl (YamlException what), vm_desc, p1)
                | Inr workflow_instance \<Rightarrow>
                    (case fetch_from_instance ext workflow_instance vm_desc of
                       (r, d) \<Rightarrow> (r, d, p1)))))"

subsection \<open>The minimum rule in the specification's words\<close>

text \<open>
  The specification's rule for one resource: a field is unset when it is zero; a set field
  strictly below the minimum is rejected; an unset field is filled with the minimum; any
  other field is kept. With no minimum, nothing is rejected and nothing changes.
\<close>

definition set_below :: "int \<Rightarrow> int option \<Rightarrow> bool" where
  "set_below v minimum = (case minimum of None \<Rightarrow> False | Some m \<Rightarrow> v \<noteq> 0 \<and> v < m)"

definition filled :: "int \<Rightarrow> int option \<Rightarrow> int" where
  "filled v minimum = (case minimum of None \<Rightarrow> v | Some m \<Rightarrow> if v = 0 then m else v)"

definition size_set_below :: "MemorySize \<Rightarrow> MemorySize option \<Rightarrow> bool" where
  "size_set_below v minimum =
     (case minimum of None \<Rightarrow> False | Some m \<Rightarrow> in_bytes v \<noteq> 0 \<and> in_bytes v < in_bytes m)"

definition size_filled :: "MemorySize \<Rightarrow> MemorySize option \<Rightarrow> MemorySize" where
  "size_filled v minimum =
     (case minimum of None \<Rightarrow> v | Some m \<Rightarrow> if in_bytes v = 0 then m else v)"

subsection \<open>A concrete provider\<close>

text \<open>
  Concrete inputs on which the theorems below are evaluated: a \<open>split\<close> that cuts at
  every colon, a size constructor that knows two sizes, one cached workflow.
\<close>

fun split_colon :: "string \<Rightarrow> string \<Rightarrow> string list" where
  "split_colon [] cur = [rev cur]"
| "split_colon (c # cs) cur =
     (if c = CHR '':'' then rev cur # split_colon cs [] else split_colon cs (c # cur))"

definition example_instance :: workflow_instance where
  "example_instance =
     \<lparr>wf_image = Some (Converted ''release:focal''),
      min_cpu = Some (Converted 2),
      min_mem = Some (Converted ''4G''),
      min_disk = Some (Converted ''10G''),
      cloud_init = Some [(YScalar ''runcmd'', YSeq [YScalar ''true'']), (YNull, YNull)]\<rparr>"

definition example_externals :: externals where
  "example_externals =
     \<lparr>split = (\<lambda>s delimiter. split_colon s []),
      load_instance = (\<lambda>config workflow_name.
         if config = ''instances: ...'' then Inr example_instance else Inl ''bad file''),
      memory_size = (\<lambda>s. if s = ''4G'' then Some (MemorySize 4294967296)
                          else if s = ''10G'' then Some (MemorySize 10737418240) else None)\<rparr>"

definition example_provider :: provider where
  "example_provider =
     \<lparr>workflows_url = ''https://example.invalid/multipass-workflows.zip'',
      archive_file_path = ''/var/cache/multipass-workflows.zip'',
      workflows_ttl = 3600,
      last_update = 1000,
      workflow_map = [''docker'' \<mapsto> ''instances: ...''],
      trace = []\<rparr>"

definition example_description :: VirtualMachineDescription where
  "example_description =
     \<lparr>num_cores = 0,
      mem_size = MemorySize 8589934592,
      disk_space = MemorySize 0,
      vm_name = ''docker'',
      default_mac_address = ''52:54:00:00:00:01'',
      extra_interfaces = [],
      vendor_data_config = [(''growpart'', YNull)]\<rparr>"

text \<open>
  The same provider with a TTL of 9223372036855 ms, the first whose count of nanoseconds
  is above the largest signed 64-bit integer, and a request for one CPU.
\<close>

definition long_ttl_provider :: provider where
  "long_ttl_provider = example_provider\<lparr>workflows_ttl := 9223372036855\<rparr>"

definition one_core_description :: VirtualMachineDescription where
  "one_core_description = example_description\<lparr>num_cores := 1\<rparr>"

section \<open>The command-line client (restart.cpp, shell.cpp)\<close>

datatype ParseCode =
    ParseCode_Ok
  | ParseCode_CommandLineError
  | ParseCode_CommandFail
  | ParseCode_HelpRequested

datatype ReturnCode = Ok | CommandLineError | CommandFail | DaemonFail | Retry

datatype StatusCode =
    OK | CANCELLED | UNKNOWN | INVALID_ARGUMENT | DEADLINE_EXCEEDED | NOT_FOUND
  | ALREADY_EXISTS | PERMISSION_DENIED | RESOURCE_EXHAUSTED | FAILED_PRECONDITION
  | ABORTED | OUT_OF_RANGE | UNIMPLEMENTED | INTERNAL | UNAVAILABLE | DATA_LOSS
  | UNAUTHENTICATED

record Status =
  error_code :: StatusCode
  error_message :: string
  error_details :: string

definition ok :: "Status \<Rightarrow> bool" where
  "ok status = (error_code status = OK)"

text \<open>
  The parser once \<open>commandParse\<close> has run: the code \<open>commandParse\<close> returned, the
  \<open>--timeout\<close> option (\<open>None\<close> when \<open>isSet("timeout")\<close> is false, else its
  \<open>value\<close>), the positional arguments and the verbosity level.
\<close>

record ArgParser =
  commandParse :: ParseCode
  timeout_option :: "string option"
  positionalArguments :: "string list"
  verbosityLevel :: int

record RestartRequest =
  instance_names :: "string list"
  timeout :: int
  verbosity_level :: int

record SSHInfoRequest =
  instance_name :: "string list"
  ssh_verbosity_level :: int

record SSHInfo =
  host :: string
  port :: int
  username :: string
  priv_key_base64 :: string

datatype rpc = Rpc_restart RestartRequest | Rpc_ssh_info SSHInfoRequest

text \<open>
  What a command does to the world around it, in order. \<open>Dispatch\<close> sends a request to the
  daemon; \<open>TryCancel\<close> would cancel a dispatched call. \<open>Cerr\<close> is the command's own
  \<open>cerr\<close> (the terminal's), \<open>StdCerr\<close> is \<open>std::cerr\<close>.
\<close>

datatype client_effect =
    Cerr string
  | StdCerr string
  | SpinnerStart string
  | SpinnerStop
  | TimerStart int
  | RaiseSignal string
  | Dispatch rpc
  | TryCancel
  | StandardFailureHandler string Status
  | RunCmdAndRetry "string list"
  | SshConnect string int string string

fun reaches_daemon :: "client_effect \<Rightarrow> bool" where
  "reaches_daemon (Dispatch r) = True"
| "reaches_daemon TryCancel = True"
| "reaches_daemon e = False"

text \<open>
  Helpers of the client that the two commands call and that are not part of the sources
  at hand (\<open>common_cli\<close>, \<open>ArgParser\<close>, the settings, \<open>QString\<close>), taken as parameters:
  \<^item> \<open>petenv\<close> is \<open>MP_SETTINGS.get(petenv_key)\<close>;
  \<^item> \<open>parse_timeout\<close> gives the timeout, or \<open>Inl\<close> the \<open>what()\<close> of its
    \<open>ValidationException\<close>;
  \<^item> \<open>check_for_name_and_all_option_conflict\<close> gives its code and what it writes to
    \<open>cerr\<close>;
  \<^item> \<open>standard_failure_handler_for\<close> gives its return code; that it ran is the
    effect \<open>StandardFailureHandler\<close>.
\<close>

record cli_externals =
  petenv :: string
  returnCodeFrom :: "ParseCode \<Rightarrow> ReturnCode"
  parse_timeout :: "ArgParser \<Rightarrow> string + int"
  check_for_name_and_all_option_conflict :: "ArgParser \<Rightarrow> bool \<Rightarrow> ParseCode \<times> string"
  add_instance_names :: "ArgParser \<Rightarrow> string \<Rightarrow> string list"
  instance_action_message_for :: "string list \<Rightarrow> string \<Rightarrow> string"
  toInt :: "string \<Rightarrow> int"
  standard_failure_handler_for :: "string \<Rightarrow> Status \<Rightarrow> ReturnCode"

subsection \<open>\<open>cmd::Restart\<close>\<close>

definition restart_name :: string where
  "restart_name = ''restart''"

text \<open>
  restart.cpp, lines 86-122: \<open>parse_args\<close> gives its code, the request it has filled and
  what it wrote.
\<close>

definition restart_parse_args ::
  "cli_externals \<Rightarrow> ArgParser \<Rightarrow> RestartRequest \<Rightarrow> ParseCode \<times> RestartRequest \<times> client_effect list" where
  "restart_parse_args ext parser request =
     (let petenv_name = petenv ext;
          status = commandParse parser
      in if status \<noteq> ParseCode_Ok then (status, request, [])
         else case parse_timeout ext parser of
           Inl what \<Rightarrow>
             (ParseCode_CommandLineError, request, [Cerr (''error: '' @ what @ [CHR 0x0A])])
         | Inr t \<Rightarrow>
             (let request1 = request\<lparr>timeout := t\<rparr>;
                  (parse_code, written) = check_for_name_and_all_option_conflict ext parser True;
                  conflict = (if written = [] then [] else [Cerr written])
              in if parse_code \<noteq> ParseCode_Ok then (parse_code, request1, conflict)
                 else (status,
                       request1\<lparr>instance_names := add_instance_names ext parser petenv_name\<rparr>,
                       conflict)))"

text \<open>restart.cpp, lines 58-62: what the timer's callback does when it runs.\<close>

definition restart_timeout_callback :: "client_effect list" where
  "restart_timeout_callback =
     [SpinnerStop,
      StdCerr (''Timed out waiting for instance to restart.'' @ [CHR 0x0A]),
      RaiseSignal ''SIGINT'']"

text \<open>restart.cpp, lines 45-48: \<open>on_failure\<close>.\<close>

definition restart_on_failure :: "cli_externals \<Rightarrow> Status \<Rightarrow> ReturnCode \<times> client_effect list" where
  "restart_on_failure ext status =
     (standard_failure_handler_for ext restart_name status,
      [SpinnerStop, StandardFailureHandler restart_name status])"

text \<open>
  How the wait inside \<open>dispatch\<close> ends: the call completes with a status, or it is still
  pending when the timeout, if there is one, elapses.
\<close>

datatype rpc_wait = Completed Status | StillPending

text \<open>
  restart.cpp, lines 36-67: \<open>run\<close>. \<open>dispatch\<close> and \<open>multipass::utils::Timer\<close> are not
  part of the sources at hand; from their use here, \<open>dispatch\<close> sends the request, waits
  for the call to complete and passes the reply to \<open>on_success\<close> when the status is OK
  and the status to \<open>on_failure\<close> otherwise, and a started timer runs its callback once
  its timeout elapses. The result is \<open>None\<close> where \<open>run\<close> has not returned: the call is
  pending, and after \<open>std::raise\<close> the sources say nothing about what follows.
\<close>

definition restart_run ::
  "cli_externals \<Rightarrow> ArgParser \<Rightarrow> RestartRequest \<Rightarrow> rpc_wait \<Rightarrow> ReturnCode option \<times> client_effect list" where
  "restart_run ext parser request0 wait =
     (case restart_parse_args ext parser request0 of
        (ret, request1, parsed) \<Rightarrow>
          if ret \<noteq> ParseCode_Ok then (Some (returnCodeFrom ext ret), parsed)
          else
            (let spinner = [SpinnerStart
                   (instance_action_message_for ext (instance_names request1) ''Restarting '')];
                 request = request1\<lparr>verbosity_level := verbosityLevel parser\<rparr>;
                 timer = (case timeout_option parser of
                            None \<Rightarrow> []
                          | Some v \<Rightarrow> [TimerStart (toInt ext v)]);
                 before = parsed @ spinner @ timer @ [Dispatch (Rpc_restart request)]
             in case wait of
                  Completed status \<Rightarrow>
                    if ok status then (Some Ok, before)
                    else (case restart_on_failure ext status of
                            (code, failed) \<Rightarrow> (Some code, before @ failed))
                | StillPending \<Rightarrow>
                    (None, before @ (if timeout_option parser = None then []
                                     else restart_timeout_callback))))"

subsection \<open>\<open>cmd::Shell\<close>\<close>

definition shell_name :: string where
  "shell_name = ''shell''"

text \<open>shell.cpp, lines 113-156: \<open>parse_args\<close>.\<close>

definition shell_parse_args ::
  "cli_externals \<Rightarrow> ArgParser \<Rightarrow> SSHInfoRequest \<Rightarrow> ParseCode \<times> SSHInfoRequest \<times> client_effect list" where
  "shell_parse_args ext parser request =
     (let petenv_name = petenv ext;
          status = commandParse parser
      in if status \<noteq> ParseCode_Ok then (status, request, [])
         else case parse_timeout ext parser of
           Inl what \<Rightarrow>
             (ParseCode_CommandLineError, request, [Cerr (''error: '' @ what @ [CHR 0x0A])])
         | Inr t \<Rightarrow>
             (let pos_args = positionalArguments parser;
                  num_args = length pos_args
              in if num_args > 1 then
                   (ParseCode_CommandLineError, request,
                    [Cerr (''Too many arguments given'' @ [CHR 0x0A])])
                 else
                   (status,
                    request\<lparr>instance_name := instance_name request @
                       [if num_args \<noteq> 0 then hd pos_args else petenv_name]\<rparr>,
                    [])))"

text \<open>
  What the world answers in one round of the loop: how the \<open>ssh_info\<close> call ends, what
  \<open>run_cmd_and_retry\<close> returns if it is called, and the \<open>what()\<close> of the exception the
  SSH client throws if it is asked to connect and fails.
\<close>

record shell_round =
  rpc_status :: Status
  rpc_ssh_info :: "(string \<times> SSHInfo) list"
  retry_result :: ReturnCode
  ssh_failure :: "string option"

text \<open>shell.cpp, lines 45-70: \<open>on_success\<close>.\<close>

definition shell_on_success :: "shell_round \<Rightarrow> ReturnCode \<times> client_effect list" where
  "shell_on_success r =
     (case rpc_ssh_info r of
        [] \<Rightarrow> (Ok, [])
      | (n, ssh_info) # rest \<Rightarrow>
          (let connect = SshConnect (host ssh_info) (port ssh_info) (username ssh_info)
                           (priv_key_base64 ssh_info)
           in case ssh_failure r of
                Some what \<Rightarrow>
                  (CommandFail, [connect, Cerr (''shell failed: '' @ what @ [CHR 0x0A])])
              | None \<Rightarrow> (Ok, [connect])))"

text \<open>shell.cpp, lines 72-86: \<open>on_failure\<close>.\<close>

definition shell_on_failure ::
  "cli_externals \<Rightarrow> ArgParser \<Rightarrow> string \<Rightarrow> shell_round \<Rightarrow> ReturnCode \<times> client_effect list" where
  "shell_on_failure ext parser name r =
     (let status = rpc_status r;
          timeout_args = (case timeout_option parser of
                            None \<Rightarrow> []
                          | Some v \<Rightarrow> [''--timeout'', v])
      in if error_code status = NOT_FOUND \<and> name = petenv ext then
           (retry_result r,
            [RunCmdAndRetry ([''multipass'', ''launch'', ''--name'', petenv ext] @ timeout_args)])
         else if error_code status = ABORTED then
           (retry_result r,
            [RunCmdAndRetry ([''multipass'', ''start'', name] @ timeout_args)])
         else
           (standard_failure_handler_for ext shell_name status,
            [StandardFailureHandler shell_name status]))"

text \<open>
  One \<open>dispatch(&RpcMethod::ssh_info, request, on_success, on_failure)\<close>, with
  \<open>dispatch\<close> as described for \<open>restart_run\<close>.
\<close>

definition shell_dispatch ::
  "cli_externals \<Rightarrow> ArgParser \<Rightarrow> SSHInfoRequest \<Rightarrow> string \<Rightarrow> shell_round \<Rightarrow>
   ReturnCode \<times> client_effect list" where
  "shell_dispatch ext parser request name r =
     (case (if ok (rpc_status r) then shell_on_success r
            else shell_on_failure ext parser name r) of
        (code, handled) \<Rightarrow> (code, Dispatch (Rpc_ssh_info request) # handled))"

text \<open>
  shell.cpp, lines 89-93: the loop around \<open>dispatch\<close>. It takes the world's answers round
  by round; the result is \<open>None\<close> when the answers given are used up and the loop has not
  ended.
\<close>

fun shell_loop ::
  "cli_externals \<Rightarrow> ArgParser \<Rightarrow> SSHInfoRequest \<Rightarrow> string \<Rightarrow> shell_round list \<Rightarrow>
   ReturnCode option \<times> client_effect list" where
  "shell_loop ext parser request name [] = (None, [])"
| "shell_loop ext parser request name (r # rounds) =
     (case shell_dispatch ext parser request name r of
        (return_code, done) \<Rightarrow>
          if return_code = Retry then
            (case shell_loop ext parser request name rounds of
               (result, later) \<Rightarrow> (result, done @ later))
          else (Some return_code, done))"

text \<open>shell.cpp, lines 32-94: \<open>run\<close>.\<close>

definition shell_run ::
  "cli_externals \<Rightarrow> ArgParser \<Rightarrow> SSHInfoRequest \<Rightarrow> shell_round list \<Rightarrow>
   ReturnCode option \<times> client_effect list" where
  "shell_run ext parser request0 rounds =
     (case shell_parse_args ext parser request0 of
        (ret, request1, parsed) \<Rightarrow>
          if ret \<noteq> ParseCode_Ok then (Some (returnCodeFrom ext ret), parsed)
          else
            (let name = hd (instance_name request1);
                 request = request1\<lparr>ssh_verbosity_level := verbosityLevel parser\<rparr>
             in case shell_loop ext parser request name rounds of
                  (result, looped) \<Rightarrow> (result, parsed @ looped)))"

subsection \<open>A concrete client\<close>

text \<open>Concrete inputs on which the theorems about the two commands are evaluated.\<close>

definition example_cli :: cli_externals where
  "example_cli =
     \<lparr>petenv = ''primary'',
      returnCodeFrom = (\<lambda>c. if c = ParseCode_Ok then Ok else CommandLineError),
      parse_timeout = (\<lambda>p. case timeout_option p of
                              None \<Rightarrow> Inr (- 1)
                            | Some v \<Rightarrow> if v = ''30'' then Inr 30 else Inl ''bad timeout''),
      check_for_name_and_all_option_conflict = (\<lambda>p allow_empty. (ParseCode_Ok, [])),
      add_instance_names = (\<lambda>p default_name.
         if positionalArguments p = [] then [default_name] else positionalArguments p),
      instance_action_message_for = (\<lambda>names message. message @ concat names),
      toInt = (\<lambda>s. if s = ''30'' then 30 else 0),
      standard_failure_handler_for = (\<lambda>n status. CommandFail)\<rparr>"

definition example_parser :: ArgParser where
  "example_parser =
     \<lparr>commandParse = ParseCode_Ok, timeout_option = Some ''30'',
      positionalArguments = [''foo''], verbosityLevel = 1\<rparr>"

definition example_restart_request :: RestartRequest where
  "example_restart_request = \<lparr>instance_names = [], timeout = 0, verbosity_level = 0\<rparr>"

definition example_ssh_request :: SSHInfoRequest where
  "example_ssh_request = \<lparr>instance_name = [''foo''], ssh_verbosity_level = 1\<rparr>"

definition round_stopped :: shell_round where
  "round_stopped =
     \<lparr>rpc_status = \<lparr>error_code = ABORTED, error_message = ''instance is stopped'',
                     error_details = []\<rparr>,
      rpc_ssh_info = [], retry_result = Retry, ssh_failure = None\<rparr>"

definition round_running :: shell_round where
  "round_running =
     \<lparr>rpc_status = \<lparr>error_code = OK, error_message = [], error_details = []\<rparr>,
      rpc_ssh_info = [(''foo'', \<lparr>host = ''10.0.0.2'', port = 22, username = ''ubuntu'',
                                 priv_key_base64 = ''a2V5''\<rparr>)],
      retry_result = Retry, ssh_failure = None\<rparr>"

section \<open>The daemon's registry and allocation\<close>

text \<open>
  The daemon itself is not part of the sources at hand: only its tests are
  (tests/test\_daemon.cpp). Everything in this section is written from the specification,
  and from the tests where they fix a detail.
\<close>

text \<open>Modelled from the spec: the lifecycle states of an instance (section 3); the daemon's
  own enumeration is missing.\<close>

datatype InstanceState =
  Pending | Off | Starting | Running | Stopping | Suspended | Restarting | Deleted | Broken

text \<open>Modelled from the spec: the resource an error of kind \<open>BelowMinimumResource\<close>
  names (section 4.3); the daemon's own type is missing.\<close>

datatype resource_kind = CpuCount | Memory | Disk

text \<open>Modelled from the spec: the error kinds of section 7 that the operations below
  raise; the daemon's exceptions are missing.\<close>

datatype daemon_error =
    NameAlreadyInUse string
  | DuplicateMacAddress string
  | BelowMinimumResource resource_kind int
  | InsufficientDiskSpace nat nat
  | DataDirectoryUnavailable string
  | BackendFailure string
  | InstanceNotFound string

text \<open>Modelled from the spec: the message of \<open>DuplicateMacAddress\<close>, which the missing
  daemon composes; the tests ask that it contain \<open>Repeated MAC\<close> and the address.\<close>

definition repeated_mac_message :: "string \<Rightarrow> string" where
  "repeated_mac_message mac = ''Repeated MAC address '' @ mac"

text \<open>Modelled from the spec: the message of \<open>InsufficientDiskSpace\<close>, which the missing daemon
  composes; the test \<open>launch_fails_when_space_less_than_image\<close> gives it in full.\<close>

definition insufficient_disk_message :: "nat \<Rightarrow> nat \<Rightarrow> string" where
  "insufficient_disk_message available minimum =
     ''Available disk ('' @ string_of_nat available @
     '' bytes) below minimum for this image ('' @ string_of_nat minimum @ '' bytes)''"

text \<open>Modelled from the spec: the warning the missing daemon logs when a launch reserves more
  disk than is available; the test \<open>launch_warns_when_overcommitting_disk\<close> gives it in
  full.\<close>

definition overcommit_warning :: "nat \<Rightarrow> nat \<Rightarrow> string" where
  "overcommit_warning requested available =
     ''Reserving more disk space ('' @ string_of_nat requested @
     '' bytes) than available ('' @ string_of_nat available @ '' bytes)''"

text \<open>Modelled from the spec: the message an error of the missing daemon carries to the caller,
  for the errors whose message the tests show.\<close>

fun error_message_of :: "daemon_error \<Rightarrow> string" where
  "error_message_of (DuplicateMacAddress mac) = repeated_mac_message mac"
| "error_message_of (InsufficientDiskSpace available minimum) =
     insufficient_disk_message available minimum"
| "error_message_of (BackendFailure cause) = cause"
| "error_message_of e = []"

text \<open>Modelled from the spec: one value of the persisted file (section 6), whose reader is
  missing. The two sizes are \<open>None\<close> when their strings do not parse.\<close>

record persisted_entry =
  p_deleted :: bool
  p_disk_space :: "nat option"
  p_extra_interfaces :: "NetworkInterface list"
  p_mac_addr :: string
  p_mem_size :: "nat option"
  p_metadata :: "(string \<times> string) list"
  p_mounts :: "string list"
  p_num_cores :: int
  p_ssh_username :: string
  p_state :: nat

text \<open>Modelled from the spec: the ghost test of the missing loader (sections 4.1 and 6):
  an entry is a ghost when a mandatory field does not parse, or when all its mandatory
  fields are zero or empty.\<close>

definition is_ghost :: "persisted_entry \<Rightarrow> bool" where
  "is_ghost e =
     (p_disk_space e = None \<or> p_mem_size e = None \<or>
      (\<not> p_deleted e \<and> p_disk_space e = Some 0 \<and> p_extra_interfaces e = [] \<and>
       p_mac_addr e = [] \<and> p_mem_size e = Some 0 \<and> p_metadata e = [] \<and> p_mounts e = [] \<and>
       p_num_cores e = 0 \<and> p_ssh_username e = [] \<and> p_state e = 0))"

text \<open>Modelled from the spec: the record the registry keeps for an instance (section 3),
  with the fields the persisted file adds to it (section 6); the daemon's own record is
  missing.\<close>

record InstanceRecord =
  description :: VirtualMachineDescription
  state :: InstanceState
  deleted :: bool
  ssh_username :: string
  metadata :: "(string \<times> string) list"
  mounts :: "string list"

text \<open>Modelled from the spec: what the missing daemon is configured with. The
  specification gives no table of the integer state codes of the file, so the two
  directions of the coding are parameters.\<close>

record daemon_config =
  data_directory :: string
  state_of_code :: "nat \<Rightarrow> InstanceState"
  code_of_state :: "InstanceState \<Rightarrow> nat"

text \<open>Modelled from the spec: the missing conversion between a value of the file and a
  record of the registry.\<close>

definition record_of_entry :: "daemon_config \<Rightarrow> string \<Rightarrow> persisted_entry \<Rightarrow> InstanceRecord" where
  "record_of_entry cfg name e =
     \<lparr>description =
        \<lparr>num_cores = p_num_cores e,
         mem_size = MemorySize (case p_mem_size e of None \<Rightarrow> 0 | Some n \<Rightarrow> n),
         disk_space = MemorySize (case p_disk_space e of None \<Rightarrow> 0 | Some n \<Rightarrow> n),
         vm_name = name,
         default_mac_address = p_mac_addr e,
         extra_interfaces = p_extra_interfaces e,
         vendor_data_config = []\<rparr>,
      state = state_of_code cfg (p_state e),
      deleted = p_deleted e,
      ssh_username = p_ssh_username e,
      metadata = p_metadata e,
      mounts = p_mounts e\<rparr>"

text \<open>Modelled from the spec: the missing conversion from a record of the registry to a value
  of the file.\<close>

definition entry_of_record :: "daemon_config \<Rightarrow> InstanceRecord \<Rightarrow> persisted_entry" where
  "entry_of_record cfg r =
     \<lparr>p_deleted = deleted r,
      p_disk_space = Some (in_bytes (disk_space (description r))),
      p_extra_interfaces = extra_interfaces (description r),
      p_mac_addr = default_mac_address (description r),
      p_mem_size = Some (in_bytes (mem_size (description r))),
      p_metadata = metadata r,
      p_mounts = mounts r,
      p_num_cores = num_cores (description r),
      p_ssh_username = ssh_username r,
      p_state = code_of_state cfg (state r)\<rparr>"

text \<open>Modelled from the spec: \<open>load\<close> of section 4.1, whose code is missing. The file
  is the list of its keys and values; \<open>load\<close> drops the ghosts and reports nothing.\<close>

definition load_db ::
  "daemon_config \<Rightarrow> (string \<times> persisted_entry) list \<Rightarrow> (string \<times> InstanceRecord) list" where
  "load_db cfg file =
     map (\<lambda>(name, e). (name, record_of_entry cfg name e))
       (filter (\<lambda>(name, e). \<not> is_ghost e) file)"

text \<open>Modelled from the spec: \<open>save\<close> of section 4.1, whose code is missing: every record of
  the registry is written.\<close>

definition save_db ::
  "daemon_config \<Rightarrow> (string \<times> InstanceRecord) list \<Rightarrow> (string \<times> persisted_entry) list" where
  "save_db cfg records = map (\<lambda>(name, r). (name, entry_of_record cfg r)) records"

text \<open>Modelled from the spec: the calls the missing daemon makes to the backend
  (section 6), as the tests observe them.\<close>

datatype backend_call =
    prepare_source_image string
  | prepare_instance_image string
  | create_virtual_machine string
  | remove_resources_for string

text \<open>Modelled from the spec: the state the missing daemon owns (sections 2 and 5): the
  registry, the reserved MAC addresses, the file as last written, and the record of its
  backend calls and logged warnings.\<close>

record daemon =
  instances :: "(string \<times> InstanceRecord) list"
  allocated_macs :: "string set"
  persisted :: "(string \<times> persisted_entry) list"
  backend_calls :: "backend_call list"
  warnings :: "string list"

text \<open>Modelled from the spec: the MAC addresses of a record (section 4.2): its default
  address and those of its extra interfaces.\<close>

definition macs_of :: "VirtualMachineDescription \<Rightarrow> string list" where
  "macs_of vm_desc = default_mac_address vm_desc # map mac_address (extra_interfaces vm_desc)"

text \<open>Modelled from the spec: the generator loop of \<open>allocate\<close> (section 4.2), which is
  missing: it draws addresses until one is not reserved. \<open>candidates\<close> are the addresses
  the random generator would draw, in order; the result is \<open>None\<close> when they are used up
  and the loop has not ended.\<close>

fun generate_unused :: "string list \<Rightarrow> string set \<Rightarrow> (string \<times> string list) option" where
  "generate_unused [] reserved = None"
| "generate_unused (c # candidates) reserved =
     (if c \<in> reserved then generate_unused candidates reserved else Some (c, candidates))"

text \<open>Modelled from the spec: \<open>allocate\<close> of the MAC registry (section 4.2), whose code
  is missing. It gives the address, the candidates left and the new reserved set.\<close>

definition allocate ::
  "string option \<Rightarrow> string list \<Rightarrow> string set \<Rightarrow>
   (daemon_error + string \<times> string list \<times> string set) option" where
  "allocate requested candidates reserved =
     (case requested of
        Some mac \<Rightarrow>
          Some (if mac \<in> reserved then Inl (DuplicateMacAddress mac)
                else Inr (mac, candidates, insert mac reserved))
      | None \<Rightarrow>
          (case generate_unused candidates reserved of
             None \<Rightarrow> None
           | Some (mac, rest) \<Rightarrow> Some (Inr (mac, rest, insert mac reserved))))"

text \<open>Modelled from the spec: \<open>release\<close> of the MAC registry (section 4.2), whose code is
  missing: it removes the reservation and does nothing when there is none.\<close>

definition release_mac :: "string \<Rightarrow> string set \<Rightarrow> string set" where
  "release_mac mac reserved = reserved - {mac}"

text \<open>Modelled from the spec: the release of every address of a list through \<open>release\<close>, as
  the rollback and purge of the missing daemon need it (section 4.2).\<close>

fun release_all :: "string list \<Rightarrow> string set \<Rightarrow> string set" where
  "release_all [] reserved = reserved"
| "release_all (mac # macs) reserved = release_all macs (release_mac mac reserved)"

subsection \<open>Launch\<close>

text \<open>Modelled from the spec: one \<open>--network\<close> of a request to the missing daemon: its
  interface, the MAC address if the caller gives one, and its mode.\<close>

record NetworkRequest =
  net_id :: string
  net_mac :: "string option"
  net_auto :: bool

text \<open>Modelled from the spec: a launch or create request as the missing daemon receives it: the
  name if the caller gives one, the resources (zero for unset) and the networks.\<close>

record LaunchRequest =
  requested_name :: "string option"
  requested_cores :: int
  requested_mem :: MemorySize
  requested_disk :: MemorySize
  requested_networks :: "NetworkRequest list"

text \<open>Modelled from the spec: what the collaborators of section 6 answer during one
  launch; the calls themselves are in the missing daemon. The workflow provider gives the
  name the workflow implies and its minimums, if any; the name generator a name; the
  vault the image's minimum size; the file system the bytes available in the data
  directory (\<open>None\<close> when it cannot be queried); the MAC generator its draws; the
  backend whether \<open>prepare_instance_image\<close> and \<open>create_virtual_machine\<close> throw, and the
  state of the machine it created.\<close>

record launch_answers =
  implied_name :: "string option"
  generated_name :: string
  minimum_cores :: "int option"
  minimum_mem :: "MemorySize option"
  minimum_disk :: "MemorySize option"
  minimum_image_size :: nat
  bytes_available :: "nat option"
  generated_macs :: "string list"
  prepare_instance_image_throws :: "string option"
  create_virtual_machine_throws :: "string option"
  created_state :: InstanceState

text \<open>Modelled from the spec: the name resolution of the missing \<open>launch\<close>
  (section 4.4): explicit, or implied by the workflow, or generated, and not in use.\<close>

definition resolve_name :: "LaunchRequest \<Rightarrow> launch_answers \<Rightarrow> daemon \<Rightarrow> daemon_error + string" where
  "resolve_name req ans d =
     (let name = (case requested_name req of
                    Some n \<Rightarrow> n
                  | None \<Rightarrow> (case implied_name ans of
                               Some n \<Rightarrow> n
                             | None \<Rightarrow> generated_name ans))
      in if name \<in> set (map fst (instances d)) then Inl (NameAlreadyInUse name) else Inr name)"

text \<open>Modelled from the spec: the default number of cores, which fills the field when the
  caller and the workflow leave it unset; a constant of the missing daemon, the tests show
  one core.\<close>

definition default_num_cores :: int where
  "default_num_cores = 1"

text \<open>Modelled from the spec: the default memory of an instance, a constant of the missing
  daemon; the tests show 1G.\<close>

definition default_memory_size :: MemorySize where
  "default_memory_size = MemorySize 1073741824"

text \<open>Modelled from the spec: the default disk of an instance, a constant of the missing
  daemon; the tests show 5G.\<close>

definition default_disk_size :: MemorySize where
  "default_disk_size = MemorySize 5368709120"

text \<open>Modelled from the spec: the ResourceLimitValidator of section 4.3, whose code is
  missing. It gives the description with its unset fields filled and the warnings to log.\<close>

definition validate_resources ::
  "daemon_config \<Rightarrow> launch_answers \<Rightarrow> VirtualMachineDescription \<Rightarrow>
   daemon_error + VirtualMachineDescription \<times> string list" where
  "validate_resources cfg ans vm_desc =
     (case bytes_available ans of
        None \<Rightarrow> Inl (DataDirectoryUnavailable (data_directory cfg))
      | Some available \<Rightarrow>
          if set_below (num_cores vm_desc) (minimum_cores ans) then
            Inl (BelowMinimumResource CpuCount (the (minimum_cores ans)))
          else if size_set_below (mem_size vm_desc) (minimum_mem ans) then
            Inl (BelowMinimumResource Memory (int (in_bytes (the (minimum_mem ans)))))
          else if size_set_below (disk_space vm_desc) (minimum_disk ans) then
            Inl (BelowMinimumResource Disk (int (in_bytes (the (minimum_disk ans)))))
          else
            (let d = vm_desc
                   \<lparr>num_cores := filled (filled (num_cores vm_desc) (minimum_cores ans))
                                   (Some default_num_cores),
                    mem_size := size_filled (size_filled (mem_size vm_desc) (minimum_mem ans))
                                   (Some default_memory_size),
                    disk_space := size_filled (size_filled (disk_space vm_desc) (minimum_disk ans))
                                   (Some default_disk_size)\<rparr>
             in if available < minimum_image_size ans then
                  Inl (InsufficientDiskSpace available (minimum_image_size ans))
                else
                  Inr (d, if available < in_bytes (disk_space d)
                          then [overcommit_warning (in_bytes (disk_space d)) available]
                          else [])))"

text \<open>Modelled from the spec: the first pass of the allocation of the missing \<open>launch\<close>
  (section 4.2): every address the caller asks for is allocated, before any address is
  generated.\<close>

fun allocate_requested :: "string list \<Rightarrow> string list \<Rightarrow> string set \<Rightarrow> daemon_error + string set" where
  "allocate_requested [] candidates reserved = Inr reserved"
| "allocate_requested (mac # macs) candidates reserved =
     (case allocate (Some mac) candidates reserved of
        Some (Inr (m, rest, reserved1)) \<Rightarrow> allocate_requested macs candidates reserved1
      | Some (Inl e) \<Rightarrow> Inl e
      | None \<Rightarrow> Inr reserved)"

text \<open>Modelled from the spec: the second pass of the allocation of the missing \<open>launch\<close>
  (section 4.2): every network gets its interface, with the address asked for or a
  generated one.\<close>

fun allocate_interfaces ::
  "NetworkRequest list \<Rightarrow> string list \<Rightarrow> string set \<Rightarrow>
   (NetworkInterface list \<times> string set) option" where
  "allocate_interfaces [] candidates reserved = Some ([], reserved)"
| "allocate_interfaces (n # ns) candidates reserved =
     (case net_mac n of
        Some mac \<Rightarrow>
          (case allocate_interfaces ns candidates reserved of
             None \<Rightarrow> None
           | Some (ifaces, reserved1) \<Rightarrow>
               Some (\<lparr>iface_id = net_id n, mac_address = mac, auto_mode = net_auto n\<rparr> # ifaces,
                     reserved1))
      | None \<Rightarrow>
          (case allocate None candidates reserved of
             Some (Inr (mac, rest, reserved1)) \<Rightarrow>
               (case allocate_interfaces ns rest reserved1 of
                  None \<Rightarrow> None
                | Some (ifaces, reserved2) \<Rightarrow>
                    Some (\<lparr>iface_id = net_id n, mac_address = mac, auto_mode = net_auto n\<rparr> # ifaces,
                          reserved2))
           | other \<Rightarrow> None))"

text \<open>Modelled from the spec: the allocation of all addresses of one instance by the missing
  \<open>launch\<close> (section 4.2): the addresses asked for, then the default address, then the
  interfaces. The result is \<open>None\<close> when the generator has not ended.\<close>

definition allocate_macs ::
  "LaunchRequest \<Rightarrow> string list \<Rightarrow> string set \<Rightarrow>
   (daemon_error + string \<times> NetworkInterface list \<times> string set) option" where
  "allocate_macs req candidates reserved =
     (case allocate_requested (List.map_filter net_mac (requested_networks req)) candidates reserved of
        Inl e \<Rightarrow> Some (Inl e)
      | Inr reserved1 \<Rightarrow>
          (case allocate None candidates reserved1 of
             Some (Inr (default_mac, rest, reserved2)) \<Rightarrow>
               (case allocate_interfaces (requested_networks req) rest reserved2 of
                  None \<Rightarrow> None
                | Some (ifaces, reserved3) \<Rightarrow> Some (Inr (default_mac, ifaces, reserved3)))
           | other \<Rightarrow> None))"

text \<open>Modelled from the spec: the rollback of the missing \<open>launch\<close> (sections 4.2 and
  4.4): release every address reserved for the attempt and remove the pending record.\<close>

definition rollback :: "string \<Rightarrow> string list \<Rightarrow> daemon \<Rightarrow> daemon" where
  "rollback name macs d =
     d\<lparr>allocated_macs := release_all macs (allocated_macs d),
       instances := AList.delete name (instances d)\<rparr>"

text \<open>Modelled from the spec: the description the missing \<open>launch\<close> builds from the
  request before it validates it.\<close>

definition requested_description :: "LaunchRequest \<Rightarrow> string \<Rightarrow> VirtualMachineDescription" where
  "requested_description req name =
     \<lparr>num_cores = requested_cores req, mem_size = requested_mem req,
      disk_space = requested_disk req, vm_name = name,
      default_mac_address = [], extra_interfaces = [], vendor_data_config = []\<rparr>"

text \<open>Modelled from the spec: the second half of the missing \<open>launch\<close> (section 4.4),
  once the addresses are reserved: insert the pending record and call the backend; on a
  backend exception roll back, ask the backend to remove the instance's resources and
  report the failure; on success set the steady state and rewrite the file. The tests fix
  the order of the backend calls: \<open>prepare_instance_image\<close> comes before
  \<open>create_virtual_machine\<close>. The user name of a new record is the one the files of the
  tests show.\<close>

definition launch_backend ::
  "daemon_config \<Rightarrow> string \<Rightarrow> VirtualMachineDescription \<Rightarrow> launch_answers \<Rightarrow> daemon \<Rightarrow>
   (daemon_error + string) \<times> daemon" where
  "launch_backend cfg name vm_desc ans d =
     (let pending = \<lparr>description = vm_desc, state = Pending, deleted = False,
                     ssh_username = ''ubuntu'', metadata = [], mounts = []\<rparr>;
          d1 = d\<lparr>instances := instances d @ [(name, pending)],
                 backend_calls := backend_calls d @
                   [prepare_source_image name, prepare_instance_image name]\<rparr>
      in case prepare_instance_image_throws ans of
           Some cause \<Rightarrow>
             (Inl (BackendFailure cause),
              (rollback name (macs_of vm_desc) d1)
                \<lparr>backend_calls := backend_calls d1 @ [remove_resources_for name]\<rparr>)
         | None \<Rightarrow>
             (let d2 = d1\<lparr>backend_calls := backend_calls d1 @ [create_virtual_machine name]\<rparr>
              in case create_virtual_machine_throws ans of
                   Some cause \<Rightarrow>
                     (Inl (BackendFailure cause),
                      (rollback name (macs_of vm_desc) d2)
                        \<lparr>backend_calls := backend_calls d2 @ [remove_resources_for name]\<rparr>)
                 | None \<Rightarrow>
                     (let d3 = d2\<lparr>instances :=
                                   AList.update name (pending\<lparr>state := created_state ans\<rparr>)
                                     (instances d2)\<rparr>
                      in (Inr name, d3\<lparr>persisted := save_db cfg (instances d3)\<rparr>))))"

text \<open>Modelled from the spec: \<open>launch\<close> (and \<open>create\<close>) of section 4.4, whose code is
  missing: resolve the name, validate the resources, allocate the addresses, then the
  backend half above. The result is \<open>None\<close> when the call has not returned (the address
  generator has not ended).\<close>

definition launch ::
  "daemon_config \<Rightarrow> LaunchRequest \<Rightarrow> launch_answers \<Rightarrow> daemon \<Rightarrow>
   (daemon_error + string) option \<times> daemon" where
  "launch cfg req ans d =
     (case resolve_name req ans d of
        Inl e \<Rightarrow> (Some (Inl e), d)
      | Inr name \<Rightarrow>
          (case validate_resources cfg ans (requested_description req name) of
             Inl e \<Rightarrow> (Some (Inl e), d)
           | Inr (validated, warned) \<Rightarrow>
               (let d1 = d\<lparr>warnings := warnings d @ warned\<rparr>
                in case allocate_macs req (generated_macs ans) (allocated_macs d1) of
                     None \<Rightarrow> (None, d1)
                   | Some (Inl e) \<Rightarrow> (Some (Inl e), d1)
                   | Some (Inr (default_mac, ifaces, reserved)) \<Rightarrow>
                       (case launch_backend cfg name
                               (validated\<lparr>default_mac_address := default_mac,
                                           extra_interfaces := ifaces\<rparr>)
                               ans (d1\<lparr>allocated_macs := reserved\<rparr>) of
                          (r, d2) \<Rightarrow> (Some r, d2)))))"

subsection \<open>Delete and purge\<close>

text \<open>Modelled from the spec: \<open>delete\<close> of one name (section 4.4), whose code is missing:
  an unknown name fails; otherwise the record is marked deleted, and with \<open>purge\<close> it is
  removed and its addresses are released.\<close>

definition delete_one :: "bool \<Rightarrow> string \<Rightarrow> daemon \<Rightarrow> daemon_error option \<times> daemon" where
  "delete_one purge name d =
     (case map_of (instances d) name of
        None \<Rightarrow> (Some (InstanceNotFound name), d)
      | Some r \<Rightarrow>
          if purge then
            (None, d\<lparr>instances := AList.delete name (instances d),
                     allocated_macs := release_all (macs_of (description r)) (allocated_macs d)\<rparr>)
          else
            (None, d\<lparr>instances := AList.update name (r\<lparr>deleted := True, state := Deleted\<rparr>)
                                     (instances d)\<rparr>))"

text \<open>Modelled from the spec: \<open>delete\<close> of a batch of names (section 4.4): every name on
  its own, the failures collected, then the file rewritten.\<close>

fun delete_names :: "bool \<Rightarrow> string list \<Rightarrow> daemon \<Rightarrow> daemon_error list \<times> daemon" where
  "delete_names purge [] d = ([], d)"
| "delete_names purge (name # names) d =
     (case delete_one purge name d of
        (failed, d1) \<Rightarrow>
          (case delete_names purge names d1 of
             (failures, d2) \<Rightarrow>
               ((case failed of None \<Rightarrow> [] | Some e \<Rightarrow> [e]) @ failures, d2)))"

text \<open>Modelled from the spec: \<open>delete\<close> as the missing daemon runs it (section 4.4): the
  batch, then the file rewritten.\<close>

definition delete_instances ::
  "daemon_config \<Rightarrow> bool \<Rightarrow> string list \<Rightarrow> daemon \<Rightarrow> daemon_error list \<times> daemon" where
  "delete_instances cfg purge names d =
     (case delete_names purge names d of
        (failures, d1) \<Rightarrow> (failures, d1\<lparr>persisted := save_db cfg (instances d1)\<rparr>))"

text \<open>Modelled from the spec: \<open>purge\<close> (section 4.4), whose code is missing: every
  soft-deleted record is removed and its addresses released, and the file is rewritten.\<close>

definition purge_all :: "daemon_config \<Rightarrow> daemon \<Rightarrow> daemon" where
  "purge_all cfg d =
     (let gone = filter (\<lambda>(name, r). deleted r) (instances d);
          kept = filter (\<lambda>(name, r). \<not> deleted r) (instances d)
      in d\<lparr>instances := kept,
           allocated_macs :=
             release_all (concat (map (\<lambda>(name, r). macs_of (description r)) gone))
               (allocated_macs d),
           persisted := save_db cfg kept\<rparr>)"

subsection \<open>Startup\<close>

text \<open>Modelled from the spec: the startup of the missing daemon (section 4.4): load the
  file, drop the ghosts, and for every survivor reserve its addresses and ask the backend
  for a handle. After the tests, a survivor whose addresses repeat (among themselves or
  with those reserved so far) is skipped before the backend is asked, and one for which
  the backend throws holds no address. \<open>throws\<close> says for which names the backend
  throws.\<close>

fun startup_records ::
  "(string \<Rightarrow> bool) \<Rightarrow> (string \<times> InstanceRecord) list \<Rightarrow> daemon \<Rightarrow> daemon" where
  "startup_records throws [] d = d"
| "startup_records throws ((name, r) # records) d =
     startup_records throws records
       (let macs = macs_of (description r)
        in if \<not> distinct macs \<or> set macs \<inter> allocated_macs d \<noteq> {} then d
           else if throws name then
             d\<lparr>backend_calls := backend_calls d @ [create_virtual_machine name]\<rparr>
           else
             d\<lparr>backend_calls := backend_calls d @ [create_virtual_machine name],
               instances := instances d @ [(name, r)],
               allocated_macs := allocated_macs d \<union> set macs\<rparr>)"

text \<open>Modelled from the spec: the startup of the missing daemon (section 4.4) from the file: an
  empty registry, then every record that \<open>load\<close> gives.\<close>

definition startup ::
  "daemon_config \<Rightarrow> (string \<Rightarrow> bool) \<Rightarrow> (string \<times> persisted_entry) list \<Rightarrow> daemon" where
  "startup cfg throws file =
     startup_records throws (load_db cfg file)
       \<lparr>instances = [], allocated_macs = {}, persisted = file, backend_calls = [], warnings = []\<rparr>"

text \<open>Modelled from the spec: the addresses of all records of the registry, in order
  (section 4.2); the daemon's own index is missing.\<close>

definition all_macs :: "(string \<times> InstanceRecord) list \<Rightarrow> string list" where
  "all_macs records = concat (map (\<lambda>(name, r). macs_of (description r)) records)"

text \<open>Modelled from the spec: the invariant of section 4.2 on the missing daemon's state: names
  are unique, no address is held twice, and the reserved addresses are exactly those of
  the records.\<close>

definition consistent :: "daemon \<Rightarrow> bool" where
  "consistent d =
     (distinct (map fst (instances d)) \<and>
      distinct (all_macs (instances d)) \<and>
      allocated_macs d = set (all_macs (instances d)))"

subsection \<open>A concrete daemon\<close>

text \<open>Concrete inputs on which the theorems about the daemon are evaluated, after the
  tests: a request for one network with the address \<open>52:54:00:73:76:28\<close>, collaborators
  that answer as the stubs of the tests do, and the file of the ghost test.\<close>

definition example_config :: daemon_config where
  "example_config =
     \<lparr>data_directory = ''/var/lib/multipassd'',
      state_of_code = (\<lambda>c. if c = 1 then Running else Off),
      code_of_state = (\<lambda>s. if s = Running then 1 else 0)\<rparr>"

definition empty_daemon :: daemon where
  "empty_daemon =
     \<lparr>instances = [], allocated_macs = {}, persisted = [], backend_calls = [], warnings = []\<rparr>"

definition example_launch :: LaunchRequest where
  "example_launch =
     \<lparr>requested_name = None, requested_cores = 0, requested_mem = MemorySize 0,
      requested_disk = MemorySize 0,
      requested_networks =
        [\<lparr>net_id = ''wlan0'', net_mac = Some ''52:54:00:73:76:28'', net_auto = True\<rparr>]\<rparr>"

definition example_answers :: launch_answers where
  "example_answers =
     \<lparr>implied_name = None, generated_name = ''pied-piper-valley'',
      minimum_cores = None, minimum_mem = None, minimum_disk = None,
      minimum_image_size = 0, bytes_available = Some 16106127360,
      generated_macs = [''52:54:00:73:76:28'', ''52:54:00:00:00:01''],
      prepare_instance_image_throws = None, create_virtual_machine_throws = None,
      created_state = Running\<rparr>"

definition ghost_entry :: persisted_entry where
  "ghost_entry =
     \<lparr>p_deleted = False, p_disk_space = Some 0, p_extra_interfaces = [], p_mac_addr = [],
      p_mem_size = Some 0, p_metadata = [], p_mounts = [], p_num_cores = 0,
      p_ssh_username = [], p_state = 0\<rparr>"

definition valid_entry :: "string \<Rightarrow> persisted_entry" where
  "valid_entry last_byte =
     \<lparr>p_deleted = False, p_disk_space = Some 3232323232, p_extra_interfaces = [],
      p_mac_addr = ''ab:cd:ef:12:34:'' @ last_byte, p_mem_size = Some 2323232323,
      p_metadata = [], p_mounts = [], p_num_cores = 4, p_ssh_username = ''ubuntu'',
      p_state = 1\<rparr>"

definition example_file :: "(string \<times> persisted_entry) list" where
  "example_file =
     [(''ghost1'', ghost_entry), (''ghost2'', ghost_entry),
      (''valid1'', valid_entry ''56''), (''valid2'', valid_entry ''78'')]"

definition zebraphant_entry :: persisted_entry where
  "zebraphant_entry =
     \<lparr>p_deleted = False, p_disk_space = Some 5368709120, p_extra_interfaces = [],
      p_mac_addr = ''52:54:00:bd:19:41'', p_mem_size = Some 1073741824,
      p_metadata = [(''machine_type'', ''dmc-de-lorean'')], p_mounts = [], p_num_cores = 1,
      p_ssh_username = ''ubuntu'', p_state = 2\<rparr>"

definition zebraphant_file :: "(string \<times> persisted_entry) list" where
  "zebraphant_file = [(''real-zebraphant'', zebraphant_entry)]"

definition zebraphant_launch :: LaunchRequest where
  "zebraphant_launch =
     \<lparr>requested_name = None, requested_cores = 0, requested_mem = MemorySize 0,
      requested_disk = MemorySize 0,
      requested_networks =
        [\<lparr>net_id = ''eth0'', net_mac = Some ''52:54:00:bd:19:41'', net_auto = True\<rparr>]\<rparr>"

definition vm_record :: "string \<Rightarrow> string \<Rightarrow> string \<Rightarrow> bool \<Rightarrow> InstanceRecord" where
  "vm_record name default_mac mac soft_deleted =
     \<lparr>description =
        \<lparr>num_cores = 1, mem_size = MemorySize 1073741824, disk_space = MemorySize 5368709120,
         vm_name = name, default_mac_address = default_mac,
         extra_interfaces = [\<lparr>iface_id = ''eth0'', mac_address = mac, auto_mode = True\<rparr>],
         vendor_data_config = []\<rparr>,
      state = (if soft_deleted then Deleted else Running), deleted = soft_deleted,
      ssh_username = ''ubuntu'', metadata = [], mounts = []\<rparr>"

definition three_vms :: daemon where
  "three_vms =
     \<lparr>instances =
        [(''vm1'', vm_record ''vm1'' ''52:54:00:00:00:01'' ''52:54:00:73:76:28'' True),
         (''vm2'', vm_record ''vm2'' ''52:54:00:00:00:02'' ''52:54:00:bd:19:41'' False),
         (''vm3'', vm_record ''vm3'' ''52:54:00:00:00:03'' ''01:23:45:67:89:ab'' False)],
      allocated_macs =
        {''52:54:00:00:00:01'', ''52:54:00:73:76:28'', ''52:54:00:00:00:02'',
         ''52:54:00:bd:19:41'', ''52:54:00:00:00:03'', ''01:23:45:67:89:ab''},
      persisted = [], backend_calls = [], warnings = []\<rparr>"

definition launch_with_mac :: "string \<Rightarrow> LaunchRequest" where
  "launch_with_mac mac =
     \<lparr>requested_name = None, requested_cores = 0, requested_mem = MemorySize 0,
      requested_disk = MemorySize 0,
      requested_networks = [\<lparr>net_id = ''eth0'', net_mac = Some mac, net_auto = True\<rparr>]\<rparr>"

definition fresh_answers :: launch_answers where
  "fresh_answers = example_answers\<lparr>generated_macs := [''52:54:00:00:00:09'']\<rparr>"

section \<open>Properties of the workflow provider\<close>

declare string_of_nat.simps [simp del]

lemma resolve_image_None: "wf_image wi = None \<Longrightarrow> resolve_image ext wi q = Inr q"
  by (simp add: resolve_image_def)

lemma fetch_workflow_for_loaded:
  assumes "update_workflows now dl p = (None, p1)"
      and "workflow_map p1 workflow_name = Some config"
      and "load_instance ext config workflow_name = Inr wi"
  shows "fetch_workflow_for ext now dl workflow_name d p =
           (fst (fetch_from_instance ext wi d), snd (fetch_from_instance ext wi d), p1)"
  using assms by (simp add: fetch_workflow_for_def split: prod.splits)

lemma fst_fetch_from_instance:
  "resolve_image ext wi initial_query = Inr q \<Longrightarrow>
   fst (fetch_from_instance ext wi d) =
     (case fst (apply_limits ext wi d) of Some e \<Rightarrow> Inl e | None \<Rightarrow> Inr q)"
  by (simp add: fetch_from_instance_def split: prod.splits option.splits)

lemma apply_min_cpu_rule:
  assumes "min_cpu wi = map_option Converted cmin"
  shows "apply_min_cpu wi d =
     (if set_below (num_cores d) cmin
      then (Some (WorkflowMinimumException ''Number of CPUs'' (to_string (the cmin))), d)
      else (None, d\<lparr>num_cores := filled (num_cores d) cmin\<rparr>))"
  using assms by (cases cmin) (auto simp: apply_min_cpu_def set_below_def filled_def)

lemma apply_min_mem_rule:
  assumes "min_mem wi = map_option Converted mstr"
      and "\<forall>s. mstr = Some s \<longrightarrow> memory_size ext s \<noteq> None"
  shows "apply_min_mem ext wi d =
     (if size_set_below (mem_size d) (Option.bind mstr (memory_size ext))
      then (Some (WorkflowMinimumException ''Memory size'' (the mstr)), d)
      else (None, d\<lparr>mem_size := size_filled (mem_size d) (Option.bind mstr (memory_size ext))\<rparr>))"
  using assms
  by (cases mstr) (auto simp: apply_min_mem_def size_set_below_def size_filled_def mem_less_def)

lemma apply_min_disk_rule:
  assumes "min_disk wi = map_option Converted dstr"
      and "\<forall>s. dstr = Some s \<longrightarrow> memory_size ext s \<noteq> None"
  shows "apply_min_disk ext wi d =
     (if size_set_below (disk_space d) (Option.bind dstr (memory_size ext))
      then (Some (WorkflowMinimumException ''Disk space'' (the dstr)), d)
      else (None, d\<lparr>disk_space := size_filled (disk_space d) (Option.bind dstr (memory_size ext))\<rparr>))"
  using assms
  by (cases dstr) (auto simp: apply_min_disk_def size_set_below_def size_filled_def mem_less_def)

lemma resolve_image_not_out_of_range: "resolve_image ext wi q \<noteq> Inl OutOfRange"
  by (simp add: resolve_image_def Let_def split: option.splits conv.splits)

lemma apply_min_cpu_not_out_of_range: "fst (apply_min_cpu wi d) \<noteq> Some OutOfRange"
  by (simp add: apply_min_cpu_def split: option.splits conv.splits)

lemma apply_min_mem_not_out_of_range: "fst (apply_min_mem ext wi d) \<noteq> Some OutOfRange"
  by (simp add: apply_min_mem_def split: option.splits conv.splits)

lemma apply_min_disk_not_out_of_range: "fst (apply_min_disk ext wi d) \<noteq> Some OutOfRange"
  by (simp add: apply_min_disk_def split: option.splits conv.splits)

lemma apply_limits_not_out_of_range: "fst (apply_limits ext wi d) \<noteq> Some OutOfRange"
proof -
  obtain e1 d1 where c: "apply_min_cpu wi d = (e1, d1)" by (cases "apply_min_cpu wi d")
  obtain e2 d2 where m: "apply_min_mem ext wi d1 = (e2, d2)" by (cases "apply_min_mem ext wi d1")
  obtain e3 d3 where k: "apply_min_disk ext wi d2 = (e3, d3)" by (cases "apply_min_disk ext wi d2")
  from apply_min_cpu_not_out_of_range [of wi d] c have 1: "e1 \<noteq> Some OutOfRange" by simp
  from apply_min_mem_not_out_of_range [of ext wi d1] m have 2: "e2 \<noteq> Some OutOfRange" by simp
  from apply_min_disk_not_out_of_range [of ext wi d2] k have 3: "e3 \<noteq> Some OutOfRange" by simp
  show ?thesis
    using 1 2 3 by (cases e1; cases e2) (simp_all add: apply_limits_def c m k)
qed

lemma fetch_from_instance_not_out_of_range:
  "fst (fetch_from_instance ext wi d) \<noteq> Inl OutOfRange"
proof (cases "resolve_image ext wi initial_query")
  case (Inl e)
  with resolve_image_not_out_of_range [of ext wi initial_query] show ?thesis
    by (auto simp: fetch_from_instance_def)
next
  case (Inr q)
  with apply_limits_not_out_of_range [of ext wi d] show ?thesis
    by (auto simp: fetch_from_instance_def split: prod.splits option.splits)
qed

lemma update_without_download:
  "\<not> sint (workflows_ttl p * 1000000) < sint (now - last_update p) \<Longrightarrow>
   update_workflows now dl p = (None, p)"
  by (simp add: update_workflows_def)

lemma update_download_failed:
  "sint (workflows_ttl p * 1000000) < sint (now - last_update p) \<Longrightarrow>
   update_workflows now (DownloadFailed what) p =
     (None, p\<lparr>trace := trace p @ [DownloadTo (workflows_url p) (archive_file_path p),
                                  LogError category (''Error fetching workflows: '' @ what)]\<rparr>)"
  by (simp add: update_workflows_def fetch_workflows_def)

lemma update_downloaded:
  "sint (workflows_ttl p * 1000000) < sint (now - last_update p) \<Longrightarrow>
   update_workflows now (Downloaded archive) p =
     (None, p\<lparr>trace := trace p @ [DownloadTo (workflows_url p) (archive_file_path p)],
              workflow_map := workflows_map_for archive, last_update := now\<rparr>)"
  by (simp add: update_workflows_def fetch_workflows_def)

lemma update_download_failed_keeps:
  "\<exists>p1. update_workflows now (DownloadFailed what) p = (None, p1) \<and>
        workflow_map p1 = workflow_map p \<and> last_update p1 = last_update p"
  by (cases "sint (workflows_ttl p * 1000000) < sint (now - last_update p)")
     (simp_all add: update_download_failed update_without_download)

text \<open>
  Where the 64-bit arithmetic of line 252 does not wrap: the TTL's count of milliseconds
  times 1000000, and the difference of the two readings of the clock.
\<close>

lemma ttl_count_in_range:
  fixes ttl :: "64 word"
  assumes "- 9223372036854 \<le> sint ttl" "sint ttl \<le> 9223372036854"
  shows "sint (ttl * 1000000) = sint ttl * 1000000"
proof -
  have "sint (ttl * 1000000) = signed_take_bit 63 (sint ttl * 1000000)"
    by (simp add: sint_word_ariths)
  also have "\<dots> = sint ttl * 1000000"
    using assms by (intro signed_take_bit_int_eq_self) simp_all
  finally show ?thesis .
qed

lemma elapsed_in_range:
  fixes a b :: "64 word"
  assumes "- (2 ^ 63) \<le> sint a - sint b" "sint a - sint b < 2 ^ 63"
  shows "sint (a - b) = sint a - sint b"
proof -
  have "sint (a - b) = signed_take_bit 63 (sint a - sint b)"
    by (simp add: sint_word_ariths)
  also have "\<dots> = sint a - sint b"
    using assms by (intro signed_take_bit_int_eq_self) simp_all
  finally show ?thesis .
qed

text \<open>No block of \<open>fetch_workflow_for\<close> after the update throws a \<open>DownloadException\<close>.\<close>

lemma resolve_image_not_download: "resolve_image ext wi q \<noteq> Inl (DownloadException w)"
  by (simp add: resolve_image_def Let_def split: option.splits conv.splits)

lemma apply_min_cpu_not_download: "fst (apply_min_cpu wi d) \<noteq> Some (DownloadException w)"
  by (simp add: apply_min_cpu_def split: option.splits conv.splits)

lemma apply_min_mem_not_download: "fst (apply_min_mem ext wi d) \<noteq> Some (DownloadException w)"
  by (simp add: apply_min_mem_def split: option.splits conv.splits)

lemma apply_min_disk_not_download: "fst (apply_min_disk ext wi d) \<noteq> Some (DownloadException w)"
  by (simp add: apply_min_disk_def split: option.splits conv.splits)

lemma apply_limits_not_download: "fst (apply_limits ext wi d) \<noteq> Some (DownloadException w)"
proof -
  obtain e1 d1 where c: "apply_min_cpu wi d = (e1, d1)" by (cases "apply_min_cpu wi d")
  obtain e2 d2 where m: "apply_min_mem ext wi d1 = (e2, d2)" by (cases "apply_min_mem ext wi d1")
  obtain e3 d3 where k: "apply_min_disk ext wi d2 = (e3, d3)" by (cases "apply_min_disk ext wi d2")
  from apply_min_cpu_not_download [of wi d w] c have 1: "e1 \<noteq> Some (DownloadException w)"
    by simp
  from apply_min_mem_not_download [of ext wi d1 w] m have 2: "e2 \<noteq> Some (DownloadException w)"
    by simp
  from apply_min_disk_not_download [of ext wi d2 w] k have 3: "e3 \<noteq> Some (DownloadException w)"
    by simp
  show ?thesis
    using 1 2 3 by (cases e1; cases e2) (simp_all add: apply_limits_def c m k)
qed

lemma fetch_from_instance_not_download:
  "fst (fetch_from_instance ext wi d) \<noteq> Inl (DownloadException w)"
proof (cases "resolve_image ext wi initial_query")
  case (Inl e)
  with resolve_image_not_download [of ext wi initial_query w] show ?thesis
    by (auto simp: fetch_from_instance_def)
next
  case (Inr q)
  with apply_limits_not_download [of ext wi d w] show ?thesis
    by (auto simp: fetch_from_instance_def split: prod.splits option.splits)
qed

lemma fetch_result_depends_on_map:
  assumes "update_workflows now dl p = (None, p1)" "workflow_map p1 = workflow_map p"
  shows "fst (fetch_workflow_for ext now dl workflow_name d p) =
           (case workflow_map p workflow_name of
              None \<Rightarrow> Inl OutOfRange
            | Some config \<Rightarrow>
                (case load_instance ext config workflow_name of
                   Inl what \<Rightarrow> Inl (YamlException what)
                 | Inr wi \<Rightarrow> fst (fetch_from_instance ext wi d)))"
    and "fst (snd (fetch_workflow_for ext now dl workflow_name d p)) =
           (case workflow_map p workflow_name of
              None \<Rightarrow> d
            | Some config \<Rightarrow>
                (case load_instance ext config workflow_name of
                   Inl what \<Rightarrow> d
                 | Inr wi \<Rightarrow> snd (fetch_from_instance ext wi d)))"
  using assms
  by (simp_all add: fetch_workflow_for_def split: option.splits sum.splits prod.splits)

text \<open>
  Claim C10. For a workflow that \<open>fetch_workflow_for\<close> finds and loads: when the workflow
  has an \<open>image\<close> field, the image string is split at \<open>:\<close>; two tokens become the
  query's \<open>remote_name\<close> and \<open>release\<close>, one token becomes the \<open>release\<close> alone,
  and any other number of tokens raises \<open>InvalidWorkflowException\<close> with the message
  \<open>Unsupported image scheme in Workflow\<close>, before the description is touched. Without an
  \<open>image\<close> field the query stays as constructed: empty release, type \<open>Alias\<close>. In the
  cases that set a query, the call returns it unless one of the limit blocks raises first.
\<close>

theorem fetch_workflow_for_image_scheme:
  assumes upd: "update_workflows now dl p = (None, p1)"
      and cfg: "workflow_map p1 workflow_name = Some config"
      and wi: "load_instance ext config workflow_name = Inr wi"
  shows
    "(\<forall>s a b. wf_image wi = Some (Converted s) \<and> split ext s '':'' = [a, b] \<longrightarrow>
        fst (fetch_workflow_for ext now dl workflow_name d p) =
          (case fst (apply_limits ext wi d) of
             Some e \<Rightarrow> Inl e
           | None \<Rightarrow> Inr (initial_query\<lparr>remote_name := a, release := b\<rparr>))) \<and>
     (\<forall>s a. wf_image wi = Some (Converted s) \<and> split ext s '':'' = [a] \<longrightarrow>
        fst (fetch_workflow_for ext now dl workflow_name d p) =
          (case fst (apply_limits ext wi d) of
             Some e \<Rightarrow> Inl e
           | None \<Rightarrow> Inr (initial_query\<lparr>release := a\<rparr>))) \<and>
     (\<forall>s. wf_image wi = Some (Converted s) \<and>
          length (split ext s '':'') \<noteq> 2 \<and> length (split ext s '':'') \<noteq> 1 \<longrightarrow>
        fetch_workflow_for ext now dl workflow_name d p =
          (Inl (InvalidWorkflowException ''Unsupported image scheme in Workflow''), d, p1)) \<and>
     (wf_image wi = None \<longrightarrow>
        fst (fetch_workflow_for ext now dl workflow_name d p) =
          (case fst (apply_limits ext wi d) of Some e \<Rightarrow> Inl e | None \<Rightarrow> Inr initial_query)) \<and>
     release initial_query = [] \<and> query_type initial_query = Alias"
proof -
  note loaded = fetch_workflow_for_loaded [OF upd cfg wi]
  have two: "fst (fetch_workflow_for ext now dl workflow_name d p) =
          (case fst (apply_limits ext wi d) of
             Some e \<Rightarrow> Inl e
           | None \<Rightarrow> Inr (initial_query\<lparr>remote_name := a, release := b\<rparr>))"
    if "wf_image wi = Some (Converted s)" "split ext s '':'' = [a, b]" for s a b
  proof -
    from that have "resolve_image ext wi initial_query =
        Inr (initial_query\<lparr>remote_name := a, release := b\<rparr>)"
      by (simp add: resolve_image_def)
    then show ?thesis by (simp add: loaded fst_fetch_from_instance)
  qed
  have one: "fst (fetch_workflow_for ext now dl workflow_name d p) =
          (case fst (apply_limits ext wi d) of
             Some e \<Rightarrow> Inl e
           | None \<Rightarrow> Inr (initial_query\<lparr>release := a\<rparr>))"
    if "wf_image wi = Some (Converted s)" "split ext s '':'' = [a]" for s a
  proof -
    from that have "resolve_image ext wi initial_query = Inr (initial_query\<lparr>release := a\<rparr>)"
      by (simp add: resolve_image_def)
    then show ?thesis by (simp add: loaded fst_fetch_from_instance)
  qed
  have other: "fetch_workflow_for ext now dl workflow_name d p =
          (Inl (InvalidWorkflowException ''Unsupported image scheme in Workflow''), d, p1)"
    if "wf_image wi = Some (Converted s)" "length (split ext s '':'') \<noteq> 2"
       "length (split ext s '':'') \<noteq> 1" for s
  proof -
    from that have "resolve_image ext wi initial_query =
        Inl (InvalidWorkflowException ''Unsupported image scheme in Workflow'')"
      by (simp add: resolve_image_def Let_def)
    then show ?thesis by (simp add: loaded fetch_from_instance_def)
  qed
  have none: "fst (fetch_workflow_for ext now dl workflow_name d p) =
          (case fst (apply_limits ext wi d) of Some e \<Rightarrow> Inl e | None \<Rightarrow> Inr initial_query)"
    if "wf_image wi = None"
    using that by (simp add: loaded fst_fetch_from_instance resolve_image_None)
  have init: "release initial_query = [] \<and> query_type initial_query = Alias"
    by (simp add: initial_query_def)
  from two one other none init show ?thesis by blast
qed

theorem fetch_workflow_for_image_scheme_witness:
  "fst (fetch_workflow_for example_externals 2000 (DownloadFailed ''unreachable'') ''docker''
          example_description example_provider) =
     Inr (initial_query\<lparr>remote_name := ''release'', release := ''focal''\<rparr>)"
proof -
  have upd: "update_workflows 2000 (DownloadFailed ''unreachable'') example_provider =
      (None, example_provider)"
    by (simp add: update_workflows_def example_provider_def)
  have cfg: "workflow_map example_provider ''docker'' = Some ''instances: ...''"
    by (simp add: example_provider_def)
  have wi: "load_instance example_externals ''instances: ...'' ''docker'' = Inr example_instance"
    by (simp add: example_externals_def)
  have img: "wf_image example_instance = Some (Converted ''release:focal'') \<and>
      split example_externals ''release:focal'' '':'' = [''release'', ''focal'']"
    by (simp add: example_instance_def example_externals_def)
  have lim: "fst (apply_limits example_externals example_instance example_description) = None"
    by (simp add: apply_limits_def apply_min_cpu_def apply_min_mem_def apply_min_disk_def
        example_instance_def example_externals_def example_description_def mem_less_def)
  from fetch_workflow_for_image_scheme [OF upd cfg wi, of example_description] img lim
  show ?thesis by simp
qed

text \<open>
  Claim C5. For a workflow that \<open>fetch_workflow_for\<close> finds and loads, whose image field
  is accepted and whose minimum limits (any of \<open>min-cpu\<close>, \<open>min-mem\<close>, \<open>min-disk\<close>)
  convert: the call checks CPUs, memory and disk in this order; the first field that is set
  (not zero) and strictly below its minimum ends the call with \<open>WorkflowMinimumException\<close>
  naming the resource and the minimum; otherwise the call returns the query, every unset
  field is filled with its minimum and every field at or above its minimum is unchanged.
\<close>

theorem workflow_minimum_limits:
  assumes upd: "update_workflows now dl p = (None, p1)"
      and cfg: "workflow_map p1 workflow_name = Some config"
      and wi: "load_instance ext config workflow_name = Inr wi"
      and img: "resolve_image ext wi initial_query = Inr q"
      and cpu: "min_cpu wi = map_option Converted cmin"
      and mem: "min_mem wi = map_option Converted mstr"
      and memv: "\<forall>s. mstr = Some s \<longrightarrow> memory_size ext s \<noteq> None"
      and disk: "min_disk wi = map_option Converted dstr"
      and diskv: "\<forall>s. dstr = Some s \<longrightarrow> memory_size ext s \<noteq> None"
  defines "mmin \<equiv> Option.bind mstr (memory_size ext)"
      and "dmin \<equiv> Option.bind dstr (memory_size ext)"
  shows "fetch_workflow_for ext now dl workflow_name d p =
     (if set_below (num_cores d) cmin then
        (Inl (WorkflowMinimumException ''Number of CPUs'' (to_string (the cmin))), d, p1)
      else if size_set_below (mem_size d) mmin then
        (Inl (WorkflowMinimumException ''Memory size'' (the mstr)),
         d\<lparr>num_cores := filled (num_cores d) cmin\<rparr>, p1)
      else if size_set_below (disk_space d) dmin then
        (Inl (WorkflowMinimumException ''Disk space'' (the dstr)),
         d\<lparr>num_cores := filled (num_cores d) cmin,
            mem_size := size_filled (mem_size d) mmin\<rparr>, p1)
      else
        (Inr q,
         apply_cloud_init wi
           (d\<lparr>num_cores := filled (num_cores d) cmin,
               mem_size := size_filled (mem_size d) mmin,
               disk_space := size_filled (disk_space d) dmin\<rparr>), p1))"
proof -
  note loaded = fetch_workflow_for_loaded [OF upd cfg wi]
  note c = apply_min_cpu_rule [OF cpu]
  note m = apply_min_mem_rule [OF mem memv]
  note k = apply_min_disk_rule [OF disk diskv]
  show ?thesis
    unfolding loaded fetch_from_instance_def apply_limits_def mmin_def dmin_def
    by (simp add: img c m k)
qed

theorem workflow_minimum_limits_witness:
  "min_cpu example_instance = map_option Converted (Some 2) \<and>
   min_mem example_instance = map_option Converted (Some ''4G'') \<and>
   min_disk example_instance = map_option Converted (Some ''10G'') \<and>
   fetch_workflow_for example_externals 2000 (DownloadFailed ''unreachable'') ''docker''
       example_description example_provider =
     (Inr (initial_query\<lparr>remote_name := ''release'', release := ''focal''\<rparr>),
      example_description
        \<lparr>num_cores := 2, disk_space := MemorySize 10737418240,
         vendor_data_config := [(''growpart'', YNull), (''runcmd'', YSeq [YScalar ''true''])]\<rparr>,
      example_provider)"
proof -
  have upd: "update_workflows 2000 (DownloadFailed ''unreachable'') example_provider =
      (None, example_provider)"
    by (simp add: update_workflows_def example_provider_def)
  have cfg: "workflow_map example_provider ''docker'' = Some ''instances: ...''"
    by (simp add: example_provider_def)
  have wi: "load_instance example_externals ''instances: ...'' ''docker'' = Inr example_instance"
    by (simp add: example_externals_def)
  have img: "resolve_image example_externals example_instance initial_query =
      Inr (initial_query\<lparr>remote_name := ''release'', release := ''focal''\<rparr>)"
    by (simp add: resolve_image_def example_instance_def example_externals_def)
  have cpu: "min_cpu example_instance = map_option Converted (Some 2)"
    by (simp add: example_instance_def)
  have mem: "min_mem example_instance = map_option Converted (Some ''4G'')"
    by (simp add: example_instance_def)
  have memv: "\<forall>s. Some ''4G'' = Some s \<longrightarrow> memory_size example_externals s \<noteq> None"
    by (simp add: example_externals_def)
  have disk: "min_disk example_instance = map_option Converted (Some ''10G'')"
    by (simp add: example_instance_def)
  have diskv: "\<forall>s. Some ''10G'' = Some s \<longrightarrow> memory_size example_externals s \<noteq> None"
    by (simp add: example_externals_def)
  have sizes: "memory_size example_externals ''4G'' = Some (MemorySize 4294967296)"
      "memory_size example_externals ''10G'' = Some (MemorySize 10737418240)"
    by (simp_all add: example_externals_def)
  have d: "num_cores example_description = 0"
      "mem_size example_description = MemorySize 8589934592"
      "disk_space example_description = MemorySize 0"
      "vendor_data_config example_description = [(''growpart'', YNull)]"
    by (simp_all add: example_description_def)
  have ci: "cloud_init example_instance =
      Some [(YScalar ''runcmd'', YSeq [YScalar ''true'']), (YNull, YNull)]"
    by (simp add: example_instance_def)
  from workflow_minimum_limits [OF upd cfg wi img cpu mem memv disk diskv, of example_description]
  show ?thesis
    by (simp add: cpu mem disk sizes d ci set_below_def filled_def size_set_below_def
        size_filled_def apply_cloud_init_def)
qed

text \<open>
  Claim C7, as amended. As written the claim fails twice on the code (see the
  counterexample below): the comparison of line 252 is done in 64-bit nanoseconds, so a
  TTL above 9223372036854 ms wraps around and the archive is downloaded before the TTL has
  passed; and a call fails also when the requested name is cached, on what the cached
  workflow holds.

  What holds: when the TTL in nanoseconds and the time since \<open>last_update\<close> fit in 64 bits,
  \<open>update_workflows\<close> downloads only when more than the TTL has passed since
  \<open>last_update\<close>, which only a successful download advances. For every TTL, a download that
  fails with \<open>DownloadException\<close> raises nothing and leaves the cached map and
  \<open>last_update\<close> as they were; when it was tried, the error is logged.
  \<open>fetch_workflow_for\<close> then gives the result and the description that the cached map
  alone determines, the same as a call that does not download, and never a
  \<open>DownloadException\<close>: \<open>std::out_of_range\<close> exactly when the cached map has no entry for
  the requested name, and otherwise what loading the cached workflow and applying it to the
  description gives.
\<close>

theorem workflows_ttl_cache:
  "(- 9223372036854 \<le> sint (workflows_ttl p) \<and> sint (workflows_ttl p) \<le> 9223372036854 \<and>
    - (2 ^ 63) \<le> sint now - sint (last_update p) \<and> sint now - sint (last_update p) < 2 ^ 63 \<longrightarrow>
      (sint now - sint (last_update p) \<le> sint (workflows_ttl p) * 1000000 \<longrightarrow>
         update_workflows now dl p = (None, p)) \<and>
      (sint (workflows_ttl p) * 1000000 < sint now - sint (last_update p) \<longrightarrow>
         update_workflows now (Downloaded archive) p =
           (None, p\<lparr>trace := trace p @ [DownloadTo (workflows_url p) (archive_file_path p)],
                    workflow_map := workflows_map_for archive, last_update := now\<rparr>) \<and>
         update_workflows now (DownloadFailed what) p =
           (None, p\<lparr>trace := trace p @ [DownloadTo (workflows_url p) (archive_file_path p),
                        LogError category (''Error fetching workflows: '' @ what)]\<rparr>))) \<and>
   update_workflows now (DownloadFailed what) p =
     (None,
      if sint (workflows_ttl p * 1000000) < sint (now - last_update p)
      then p\<lparr>trace := trace p @ [DownloadTo (workflows_url p) (archive_file_path p),
                   LogError category (''Error fetching workflows: '' @ what)]\<rparr>
      else p) \<and>
   workflow_map (snd (update_workflows now (DownloadFailed what) p)) = workflow_map p \<and>
   last_update (snd (update_workflows now (DownloadFailed what) p)) = last_update p \<and>
   fst (fetch_workflow_for ext now (DownloadFailed what) workflow_name d p) =
     (case workflow_map p workflow_name of
        None \<Rightarrow> Inl OutOfRange
      | Some config \<Rightarrow>
          (case load_instance ext config workflow_name of
             Inl msg \<Rightarrow> Inl (YamlException msg)
           | Inr wi \<Rightarrow> fst (fetch_from_instance ext wi d))) \<and>
   fst (snd (fetch_workflow_for ext now (DownloadFailed what) workflow_name d p)) =
     (case workflow_map p workflow_name of
        None \<Rightarrow> d
      | Some config \<Rightarrow>
          (case load_instance ext config workflow_name of
             Inl msg \<Rightarrow> d
           | Inr wi \<Rightarrow> snd (fetch_from_instance ext wi d))) \<and>
   fst (fetch_workflow_for ext now (DownloadFailed what) workflow_name d p) \<noteq>
     Inl (DownloadException w) \<and>
   (fst (fetch_workflow_for ext now (DownloadFailed what) workflow_name d p) = Inl OutOfRange
      \<longleftrightarrow> workflow_map p workflow_name = None) \<and>
   (\<forall>now' dl'. update_workflows now' dl' p = (None, p) \<longrightarrow>
      fst (fetch_workflow_for ext now (DownloadFailed what) workflow_name d p) =
        fst (fetch_workflow_for ext now' dl' workflow_name d p) \<and>
      fst (snd (fetch_workflow_for ext now (DownloadFailed what) workflow_name d p)) =
        fst (snd (fetch_workflow_for ext now' dl' workflow_name d p)))"
proof -
  let ?tried = "sint (workflows_ttl p * 1000000) < sint (now - last_update p)"
  have ranged: "(sint now - sint (last_update p) \<le> sint (workflows_ttl p) * 1000000 \<longrightarrow>
         update_workflows now dl p = (None, p)) \<and>
      (sint (workflows_ttl p) * 1000000 < sint now - sint (last_update p) \<longrightarrow>
         update_workflows now (Downloaded archive) p =
           (None, p\<lparr>trace := trace p @ [DownloadTo (workflows_url p) (archive_file_path p)],
                    workflow_map := workflows_map_for archive, last_update := now\<rparr>) \<and>
         update_workflows now (DownloadFailed what) p =
           (None, p\<lparr>trace := trace p @ [DownloadTo (workflows_url p) (archive_file_path p),
                        LogError category (''Error fetching workflows: '' @ what)]\<rparr>))"
    if ttl: "- 9223372036854 \<le> sint (workflows_ttl p)" "sint (workflows_ttl p) \<le> 9223372036854"
      and el: "- (2 ^ 63) \<le> sint now - sint (last_update p)"
        "sint now - sint (last_update p) < 2 ^ 63"
  proof -
    note t = ttl_count_in_range [OF ttl]
    note e = elapsed_in_range [OF el]
    show ?thesis
    proof (cases "sint (workflows_ttl p) * 1000000 < sint now - sint (last_update p)")
      case True
      then have ?tried by (simp add: t e)
      with True show ?thesis
        by (simp add: update_download_failed update_downloaded)
    next
      case False
      then have "\<not> ?tried" by (simp add: t e)
      with False show ?thesis
        by (simp add: update_without_download)
    qed
  qed
  have upd: "update_workflows now (DownloadFailed what) p =
     (None,
      if ?tried
      then p\<lparr>trace := trace p @ [DownloadTo (workflows_url p) (archive_file_path p),
                   LogError category (''Error fetching workflows: '' @ what)]\<rparr>
      else p)"
    by (simp add: update_download_failed update_without_download)
  obtain p1 where p1: "update_workflows now (DownloadFailed what) p = (None, p1)"
      "workflow_map p1 = workflow_map p" and lu: "last_update p1 = last_update p"
    using update_download_failed_keeps by blast
  note failed = fetch_result_depends_on_map [OF p1]
  have kept: "workflow_map (snd (update_workflows now (DownloadFailed what) p)) = workflow_map p"
      "last_update (snd (update_workflows now (DownloadFailed what) p)) = last_update p"
    by (simp_all add: p1 lu)
  have nodl: "fst (fetch_workflow_for ext now (DownloadFailed what) workflow_name d p) \<noteq>
      Inl (DownloadException w)"
    unfolding failed(1)
    using fetch_from_instance_not_download
    by (auto split: option.splits sum.splits)
  have oor: "fst (fetch_workflow_for ext now (DownloadFailed what) workflow_name d p) = Inl OutOfRange
      \<longleftrightarrow> workflow_map p workflow_name = None"
    unfolding failed(1)
    using fetch_from_instance_not_out_of_range
    by (auto split: option.splits sum.splits)
  have same: "fst (fetch_workflow_for ext now (DownloadFailed what) workflow_name d p) =
        fst (fetch_workflow_for ext now' dl' workflow_name d p) \<and>
      fst (snd (fetch_workflow_for ext now (DownloadFailed what) workflow_name d p)) =
        fst (snd (fetch_workflow_for ext now' dl' workflow_name d p))"
    if "update_workflows now' dl' p = (None, p)" for now' dl'
    using fetch_result_depends_on_map [OF that refl] by (simp add: failed)
  from ranged have 1: "- 9223372036854 \<le> sint (workflows_ttl p) \<and>
      sint (workflows_ttl p) \<le> 9223372036854 \<and>
      - (2 ^ 63) \<le> sint now - sint (last_update p) \<and>
      sint now - sint (last_update p) < 2 ^ 63 \<longrightarrow>
      (sint now - sint (last_update p) \<le> sint (workflows_ttl p) * 1000000 \<longrightarrow>
         update_workflows now dl p = (None, p)) \<and>
      (sint (workflows_ttl p) * 1000000 < sint now - sint (last_update p) \<longrightarrow>
         update_workflows now (Downloaded archive) p =
           (None, p\<lparr>trace := trace p @ [DownloadTo (workflows_url p) (archive_file_path p)],
                    workflow_map := workflows_map_for archive, last_update := now\<rparr>) \<and>
         update_workflows now (DownloadFailed what) p =
           (None, p\<lparr>trace := trace p @ [DownloadTo (workflows_url p) (archive_file_path p),
                        LogError category (''Error fetching workflows: '' @ what)]\<rparr>))"
    by blast
  from same have 2: "\<forall>now' dl'. update_workflows now' dl' p = (None, p) \<longrightarrow>
      fst (fetch_workflow_for ext now (DownloadFailed what) workflow_name d p) =
        fst (fetch_workflow_for ext now' dl' workflow_name d p) \<and>
      fst (snd (fetch_workflow_for ext now (DownloadFailed what) workflow_name d p)) =
        fst (snd (fetch_workflow_for ext now' dl' workflow_name d p))"
    by blast
  show ?thesis
    apply (intro conjI)
            apply (rule 1)
           apply (rule upd)
          apply (rule kept(1))
         apply (rule kept(2))
        apply (rule failed(1))
       apply (rule failed(2))
      apply (rule nodl)
     apply (rule oor)
    apply (rule 2)
    done
qed

text \<open>
  The amended claim on the example provider (TTL 3600 ms, last update at 1000 ns): at
  2000 ns nothing is downloaded; at 5000000000 ns the failed download is logged, the
  cached \<open>docker\<close> workflow is served and \<open>minikube\<close>, which is not cached, is out of range.
\<close>

theorem workflows_ttl_cache_witness:
  "update_workflows 2000 (Downloaded []) example_provider = (None, example_provider) \<and>
   update_workflows 5000000000 (DownloadFailed ''unreachable'') example_provider =
     (None, example_provider\<lparr>trace :=
        [DownloadTo ''https://example.invalid/multipass-workflows.zip''
           ''/var/cache/multipass-workflows.zip'',
         LogError ''workflow provider'' ''Error fetching workflows: unreachable'']\<rparr>) \<and>
   fst (fetch_workflow_for example_externals 5000000000 (DownloadFailed ''unreachable'')
          ''docker'' example_description example_provider) =
     fst (fetch_workflow_for example_externals 2000 (Downloaded []) ''docker''
          example_description example_provider) \<and>
   fst (fetch_workflow_for example_externals 5000000000 (DownloadFailed ''unreachable'')
          ''docker'' example_description example_provider) \<noteq> Inl OutOfRange \<and>
   fst (fetch_workflow_for example_externals 5000000000 (DownloadFailed ''unreachable'')
          ''minikube'' example_description example_provider) = Inl OutOfRange"
proof -
  have p: "last_update example_provider = 1000" "workflows_ttl example_provider = 3600"
      "trace example_provider = []"
      "workflows_url example_provider = ''https://example.invalid/multipass-workflows.zip''"
      "archive_file_path example_provider = ''/var/cache/multipass-workflows.zip''"
      "workflow_map example_provider ''docker'' \<noteq> None"
      "workflow_map example_provider ''minikube'' = None"
    by (simp_all add: example_provider_def)
  have fits: "- 9223372036854 \<le> sint (workflows_ttl example_provider) \<and>
      sint (workflows_ttl example_provider) \<le> 9223372036854 \<and>
      - (2 ^ 63) \<le> sint (t :: 64 word) - sint (last_update example_provider) \<and>
      sint t - sint (last_update example_provider) < 2 ^ 63"
    if "t = 2000 \<or> t = 5000000000" for t
    using that by (auto simp: p)
  have within: "sint (2000 :: 64 word) - sint (last_update example_provider)
      \<le> sint (workflows_ttl example_provider) * 1000000"
    by (simp add: p)
  have beyond: "sint (workflows_ttl example_provider) * 1000000
      < sint (5000000000 :: 64 word) - sint (last_update example_provider)"
    by (simp add: p)
  note at_2 = workflows_ttl_cache [where p = example_provider and now = 2000
      and dl = "Downloaded []" and archive = "[]" and what = "''unreachable''"
      and ext = example_externals and workflow_name = "''docker''" and d = example_description
      and w = "''unreachable''"]
  note at_5 = workflows_ttl_cache [where p = example_provider and now = 5000000000
      and dl = "Downloaded []" and archive = "[]" and what = "''unreachable''"
      and ext = example_externals and workflow_name = "''docker''" and d = example_description
      and w = "''unreachable''"]
  note at_5_minikube = workflows_ttl_cache [where p = example_provider and now = 5000000000
      and dl = "Downloaded []" and archive = "[]" and what = "''unreachable''"
      and ext = example_externals and workflow_name = "''minikube''"
      and d = example_description and w = "''unreachable''"]
  have 1: "update_workflows 2000 (Downloaded []) example_provider = (None, example_provider)"
    using at_2 [THEN conjunct1, rule_format, OF fits, THEN conjunct1, rule_format, OF _ within]
    by simp
  have 2: "update_workflows 5000000000 (DownloadFailed ''unreachable'') example_provider =
     (None, example_provider\<lparr>trace :=
        [DownloadTo ''https://example.invalid/multipass-workflows.zip''
           ''/var/cache/multipass-workflows.zip'',
         LogError ''workflow provider'' ''Error fetching workflows: unreachable'']\<rparr>)"
    using at_5 [THEN conjunct1, rule_format, OF fits, THEN conjunct2, rule_format, OF _ beyond,
        THEN conjunct2]
    by (simp add: p category_def)
  note rest = at_5 [THEN conjunct2, THEN conjunct2, THEN conjunct2, THEN conjunct2,
      THEN conjunct2, THEN conjunct2, THEN conjunct2]
  have 3: "fst (fetch_workflow_for example_externals 5000000000 (DownloadFailed ''unreachable'')
          ''docker'' example_description example_provider) \<noteq> Inl OutOfRange"
    using rest [THEN conjunct1] by (simp only: p simp_thms)
  have 4: "fst (fetch_workflow_for example_externals 5000000000 (DownloadFailed ''unreachable'')
          ''docker'' example_description example_provider) =
     fst (fetch_workflow_for example_externals 2000 (Downloaded []) ''docker''
          example_description example_provider)"
    using rest [THEN conjunct2, rule_format, OF 1, THEN conjunct1] .
  have 5: "fst (fetch_workflow_for example_externals 5000000000 (DownloadFailed ''unreachable'')
          ''minikube'' example_description example_provider) = Inl OutOfRange"
    using at_5_minikube [THEN conjunct2, THEN conjunct2, THEN conjunct2, THEN conjunct2,
        THEN conjunct2, THEN conjunct2, THEN conjunct2, THEN conjunct1]
    by (simp only: p simp_thms)
  from 1 2 4 3 5 show ?thesis by (simp only: simp_thms)
qed

text \<open>
  The claim as written fails on the code at two inputs. With a TTL of 9223372036855 ms
  and 1000 ns since the last update, far less than the TTL, line 252 compares 1000 with
  9223372036855000000 wrapped around to a negative count, and the archive is downloaded
  again. With the \<open>docker\<close> workflow cached (minimum 2 CPUs) and the download failed, a
  request for one CPU fails with \<open>WorkflowMinimumException\<close>: a failure of the call with the
  requested name in the cached map.
\<close>

theorem workflows_ttl_cache_counterexample:
  "sint (2000 :: 64 word) - sint (last_update long_ttl_provider) = 1000 \<and>
   sint (workflows_ttl long_ttl_provider) * 1000000 = 9223372036855000000 \<and>
   update_workflows 2000 (Downloaded []) long_ttl_provider =
     (None, long_ttl_provider\<lparr>trace :=
        [DownloadTo ''https://example.invalid/multipass-workflows.zip''
           ''/var/cache/multipass-workflows.zip''],
        workflow_map := workflows_map_for [], last_update := 2000\<rparr>) \<and>
   workflow_map example_provider ''docker'' = Some ''instances: ...'' \<and>
   fetch_workflow_for example_externals 5000000000 (DownloadFailed ''unreachable'') ''docker''
       one_core_description example_provider =
     (Inl (WorkflowMinimumException ''Number of CPUs'' ''2''), one_core_description,
      example_provider\<lparr>trace :=
        [DownloadTo ''https://example.invalid/multipass-workflows.zip''
           ''/var/cache/multipass-workflows.zip'',
         LogError ''workflow provider'' ''Error fetching workflows: unreachable'']\<rparr>)"
proof -
  have elapsed: "sint (2000 :: 64 word) - sint (last_update long_ttl_provider) = 1000"
    by (simp add: long_ttl_provider_def example_provider_def)
  have ttl: "sint (workflows_ttl long_ttl_provider) * 1000000 = 9223372036855000000"
    by (simp add: long_ttl_provider_def example_provider_def)
  have wrapped: "sint (workflows_ttl long_ttl_provider * 1000000) = - 9223372036854551616"
    by (simp add: long_ttl_provider_def example_provider_def)
  have download: "update_workflows 2000 (Downloaded []) long_ttl_provider =
     (None, long_ttl_provider\<lparr>trace :=
        [DownloadTo ''https://example.invalid/multipass-workflows.zip''
           ''/var/cache/multipass-workflows.zip''],
        workflow_map := workflows_map_for [], last_update := 2000\<rparr>)"
    by (simp add: update_workflows_def fetch_workflows_def wrapped)
       (simp add: long_ttl_provider_def example_provider_def)
  have cached: "workflow_map example_provider ''docker'' = Some ''instances: ...''"
    by (simp add: example_provider_def)
  have upd: "update_workflows 5000000000 (DownloadFailed ''unreachable'') example_provider =
     (None, example_provider\<lparr>trace :=
        [DownloadTo ''https://example.invalid/multipass-workflows.zip''
           ''/var/cache/multipass-workflows.zip'',
         LogError ''workflow provider'' ''Error fetching workflows: unreachable'']\<rparr>)"
    by (simp add: update_workflows_def fetch_workflows_def category_def example_provider_def)
  have wi: "load_instance example_externals ''instances: ...'' ''docker'' = Inr example_instance"
    by (simp add: example_externals_def)
  have img: "resolve_image example_externals example_instance initial_query =
      Inr (initial_query\<lparr>remote_name := ''release'', release := ''focal''\<rparr>)"
    by (simp add: resolve_image_def example_instance_def example_externals_def)
  have two: "to_string 2 = ''2''"
    by (simp add: to_string_def string_of_nat.simps digit_char_def)
  have cpu: "apply_min_cpu example_instance one_core_description =
      (Some (WorkflowMinimumException ''Number of CPUs'' ''2''), one_core_description)"
    by (simp add: apply_min_cpu_def example_instance_def one_core_description_def
        example_description_def two)
  have inst: "fetch_from_instance example_externals example_instance one_core_description =
      (Inl (WorkflowMinimumException ''Number of CPUs'' ''2''), one_core_description)"
    by (simp add: fetch_from_instance_def img apply_limits_def cpu)
  have failure: "fetch_workflow_for example_externals 5000000000 (DownloadFailed ''unreachable'')
       ''docker'' one_core_description example_provider =
     (Inl (WorkflowMinimumException ''Number of CPUs'' ''2''), one_core_description,
      example_provider\<lparr>trace :=
        [DownloadTo ''https://example.invalid/multipass-workflows.zip''
           ''/var/cache/multipass-workflows.zip'',
         LogError ''workflow provider'' ''Error fetching workflows: unreachable'']\<rparr>)"
    unfolding fetch_workflow_for_def upd by (simp add: cached wi inst)
  from elapsed ttl download cached failure show ?thesis by simp
qed

section \<open>Properties of the command-line client\<close>

lemma restart_parse_args_quiet:
  "restart_parse_args ext parser request0 = (code, request1, parsed) \<Longrightarrow>
   filter reaches_daemon parsed = []"
  by (auto simp: restart_parse_args_def Let_def split: if_splits sum.splits prod.splits)

lemma restart_timeout_callback_quiet: "filter reaches_daemon restart_timeout_callback = []"
  by (simp add: restart_timeout_callback_def)

lemma shell_loop_retries:
  assumes "\<forall>r \<in> set pre. fst (shell_dispatch ext parser request name r) = Retry"
  shows "shell_loop ext parser request name (pre @ rounds) =
           (fst (shell_loop ext parser request name rounds),
            concat (map (\<lambda>r. snd (shell_dispatch ext parser request name r)) pre) @
            snd (shell_loop ext parser request name rounds))"
  using assms
  by (induction pre) (auto split: prod.splits)

lemma shell_loop_ends:
  assumes "fst (shell_dispatch ext parser request name r) \<noteq> Retry"
  shows "shell_loop ext parser request name (r # rest) =
           (Some (fst (shell_dispatch ext parser request name r)),
            snd (shell_dispatch ext parser request name r))"
  using assms by (auto split: prod.splits)

text \<open>
  Claim C8. When \<open>restart\<close> runs with \<open>--timeout\<close> and the call is still pending when
  the timeout elapses, everything that happens is on the client's side: the timer's
  callback stops the spinner, writes \<open>Timed out waiting for instance to restart.\<close> to
  \<open>std::cerr\<close> and raises \<open>SIGINT\<close>. The only thing that reaches the daemon in the
  whole run is the one dispatched \<open>restart\<close> request: the callback sends nothing and
  cancels nothing.
\<close>

theorem restart_timeout_is_client_side:
  assumes parse: "restart_parse_args ext parser request0 = (ParseCode_Ok, request1, parsed)"
      and tmo: "timeout_option parser = Some v"
  defines "request \<equiv> request1\<lparr>verbosity_level := verbosityLevel parser\<rparr>"
  shows "restart_run ext parser request0 StillPending =
           (None,
            parsed @
            [SpinnerStart (instance_action_message_for ext (instance_names request1) ''Restarting ''),
             TimerStart (toInt ext v),
             Dispatch (Rpc_restart request),
             SpinnerStop,
             StdCerr (''Timed out waiting for instance to restart.'' @ [CHR 0x0A]),
             RaiseSignal ''SIGINT'']) \<and>
         filter reaches_daemon (snd (restart_run ext parser request0 StillPending)) =
           [Dispatch (Rpc_restart request)] \<and>
         filter reaches_daemon restart_timeout_callback = []"
proof -
  have run: "restart_run ext parser request0 StillPending =
           (None,
            parsed @
            [SpinnerStart (instance_action_message_for ext (instance_names request1) ''Restarting ''),
             TimerStart (toInt ext v),
             Dispatch (Rpc_restart request),
             SpinnerStop,
             StdCerr (''Timed out waiting for instance to restart.'' @ [CHR 0x0A]),
             RaiseSignal ''SIGINT''])"
    by (simp add: restart_run_def parse tmo request_def restart_timeout_callback_def)
  have quiet: "filter reaches_daemon parsed = []"
    using parse by (rule restart_parse_args_quiet)
  show ?thesis
    unfolding run using quiet by (simp add: restart_timeout_callback_quiet)
qed

theorem restart_timeout_is_client_side_witness:
  "restart_parse_args example_cli example_parser example_restart_request =
     (ParseCode_Ok, \<lparr>instance_names = [''foo''], timeout = 30, verbosity_level = 0\<rparr>, []) \<and>
   timeout_option example_parser = Some ''30'' \<and>
   restart_run example_cli example_parser example_restart_request StillPending =
     (None,
      [SpinnerStart ''Restarting foo'',
       TimerStart 30,
       Dispatch (Rpc_restart \<lparr>instance_names = [''foo''], timeout = 30, verbosity_level = 1\<rparr>),
       SpinnerStop,
       StdCerr (''Timed out waiting for instance to restart.'' @ [CHR 0x0A]),
       RaiseSignal ''SIGINT''])"
proof -
  have parse: "restart_parse_args example_cli example_parser example_restart_request =
     (ParseCode_Ok, \<lparr>instance_names = [''foo''], timeout = 30, verbosity_level = 0\<rparr>, [])"
    by (simp add: restart_parse_args_def example_cli_def example_parser_def
        example_restart_request_def)
  have tmo: "timeout_option example_parser = Some ''30''"
    by (simp add: example_parser_def)
  have ext: "toInt example_cli ''30'' = 30"
      "instance_action_message_for example_cli [''foo''] ''Restarting '' = ''Restarting foo''"
      "verbosityLevel example_parser = 1"
    by (simp_all add: example_cli_def example_parser_def)
  from restart_timeout_is_client_side [OF parse tmo] parse tmo show ?thesis
    by (simp add: ext)
qed

text \<open>
  Claim C9. When the \<open>ssh_info\<close> call of \<open>shell\<close> fails: with \<open>NOT_FOUND\<close> for the
  primary instance the handler runs \<open>multipass launch --name <primary>\<close>, with
  \<open>ABORTED\<close> it runs \<open>multipass start <name>\<close> (each followed by \<open>--timeout\<close> and
  its value when the option is set), and with any other status it calls the standard
  failure handler and runs no command. The loop dispatches again as long as the handler
  returns \<open>Retry\<close>, and ends with the first other return code.
\<close>

theorem shell_retries_on_failure:
  fixes ext parser request name
  defines "timeout_args \<equiv> (case timeout_option parser of None \<Rightarrow> [] | Some v \<Rightarrow> [''--timeout'', v])"
      and "dispatch \<equiv> shell_dispatch ext parser request name"
  shows
    "(\<not> ok (rpc_status r) \<longrightarrow>
        dispatch r =
          (if error_code (rpc_status r) = NOT_FOUND \<and> name = petenv ext then
             (retry_result r,
              [Dispatch (Rpc_ssh_info request),
               RunCmdAndRetry ([''multipass'', ''launch'', ''--name'', petenv ext] @ timeout_args)])
           else if error_code (rpc_status r) = ABORTED then
             (retry_result r,
              [Dispatch (Rpc_ssh_info request),
               RunCmdAndRetry ([''multipass'', ''start'', name] @ timeout_args)])
           else
             (standard_failure_handler_for ext ''shell'' (rpc_status r),
              [Dispatch (Rpc_ssh_info request),
               StandardFailureHandler ''shell'' (rpc_status r)]))) \<and>
     ((\<forall>x \<in> set pre. fst (dispatch x) = Retry) \<and> fst (dispatch r) \<noteq> Retry \<longrightarrow>
        shell_loop ext parser request name (pre @ r # rest) =
          (Some (fst (dispatch r)), concat (map (\<lambda>x. snd (dispatch x)) (pre @ [r])))) \<and>
     ((\<forall>x \<in> set pre. fst (dispatch x) = Retry) \<longrightarrow>
        fst (shell_loop ext parser request name pre) = None)"
proof -
  have handler: "dispatch r =
          (if error_code (rpc_status r) = NOT_FOUND \<and> name = petenv ext then
             (retry_result r,
              [Dispatch (Rpc_ssh_info request),
               RunCmdAndRetry ([''multipass'', ''launch'', ''--name'', petenv ext] @ timeout_args)])
           else if error_code (rpc_status r) = ABORTED then
             (retry_result r,
              [Dispatch (Rpc_ssh_info request),
               RunCmdAndRetry ([''multipass'', ''start'', name] @ timeout_args)])
           else
             (standard_failure_handler_for ext ''shell'' (rpc_status r),
              [Dispatch (Rpc_ssh_info request),
               StandardFailureHandler ''shell'' (rpc_status r)]))"
    if "\<not> ok (rpc_status r)"
    using that
    by (simp add: dispatch_def timeout_args_def shell_dispatch_def shell_on_failure_def
        shell_name_def Let_def)
  have ends: "shell_loop ext parser request name (pre @ r # rest) =
          (Some (fst (dispatch r)), concat (map (\<lambda>x. snd (dispatch x)) (pre @ [r])))"
    if "\<forall>x \<in> set pre. fst (dispatch x) = Retry" "fst (dispatch r) \<noteq> Retry"
  proof -
    from that(2) have last: "shell_loop ext parser request name (r # rest) =
        (Some (fst (dispatch r)), snd (dispatch r))"
      unfolding dispatch_def by (rule shell_loop_ends)
    from that(1) have "shell_loop ext parser request name (pre @ r # rest) =
        (fst (shell_loop ext parser request name (r # rest)),
         concat (map (\<lambda>x. snd (dispatch x)) pre) @
         snd (shell_loop ext parser request name (r # rest)))"
      unfolding dispatch_def by (rule shell_loop_retries)
    then have "shell_loop ext parser request name (pre @ r # rest) =
        (Some (fst (dispatch r)), concat (map (\<lambda>x. snd (dispatch x)) pre) @ snd (dispatch r))"
      unfolding last by (simp only: fst_conv snd_conv)
    then show ?thesis by (simp del: shell_loop.simps)
  qed
  have goes_on: "fst (shell_loop ext parser request name pre) = None"
    if "\<forall>x \<in> set pre. fst (dispatch x) = Retry"
    using that shell_loop_retries [of pre ext parser request name "[]"]
    by (simp add: dispatch_def)
  from handler ends goes_on show ?thesis by blast
qed

theorem shell_retries_on_failure_witness:
  "\<not> ok (rpc_status round_stopped) \<and>
   shell_dispatch example_cli example_parser example_ssh_request ''foo'' round_stopped =
     (Retry,
      [Dispatch (Rpc_ssh_info example_ssh_request),
       RunCmdAndRetry [''multipass'', ''start'', ''foo'', ''--timeout'', ''30'']]) \<and>
   shell_loop example_cli example_parser example_ssh_request ''foo''
       [round_stopped, round_running] =
     (Some Ok,
      [Dispatch (Rpc_ssh_info example_ssh_request),
       RunCmdAndRetry [''multipass'', ''start'', ''foo'', ''--timeout'', ''30''],
       Dispatch (Rpc_ssh_info example_ssh_request),
       SshConnect ''10.0.0.2'' 22 ''ubuntu'' ''a2V5''])"
proof -
  have failed: "\<not> ok (rpc_status round_stopped)"
      "error_code (rpc_status round_stopped) = ABORTED"
      "retry_result round_stopped = Retry"
    by (simp_all add: ok_def round_stopped_def)
  have env: "timeout_option example_parser = Some ''30''" "petenv example_cli = ''primary''"
    by (simp_all add: example_parser_def example_cli_def)
  have running: "shell_dispatch example_cli example_parser example_ssh_request ''foo'' round_running =
      (Ok, [Dispatch (Rpc_ssh_info example_ssh_request),
            SshConnect ''10.0.0.2'' 22 ''ubuntu'' ''a2V5''])"
    by (simp add: shell_dispatch_def shell_on_success_def ok_def round_running_def)
  note inst = shell_retries_on_failure [of round_stopped example_cli example_parser
      example_ssh_request "''foo''" "[round_stopped]" "[]"]
  from inst failed have stopped:
    "shell_dispatch example_cli example_parser example_ssh_request ''foo'' round_stopped =
     (Retry,
      [Dispatch (Rpc_ssh_info example_ssh_request),
       RunCmdAndRetry [''multipass'', ''start'', ''foo'', ''--timeout'', ''30'']])"
    by (simp add: env)
  from shell_retries_on_failure [of round_running example_cli example_parser
      example_ssh_request "''foo''" "[round_stopped]" "[]"]
  have "shell_loop example_cli example_parser example_ssh_request ''foo''
       [round_stopped, round_running] =
     (Some Ok,
      [Dispatch (Rpc_ssh_info example_ssh_request),
       RunCmdAndRetry [''multipass'', ''start'', ''foo'', ''--timeout'', ''30''],
       Dispatch (Rpc_ssh_info example_ssh_request),
       SshConnect ''10.0.0.2'' 22 ''ubuntu'' ''a2V5''])"
    by (simp add: stopped running del: shell_loop.simps)
  with failed(1) stopped show ?thesis by simp
qed

section \<open>Properties of the daemon's registry and allocation\<close>

lemma release_all_eq: "release_all macs reserved = reserved - set macs"
  by (induction macs arbitrary: reserved) (auto simp: release_mac_def)

lemma generate_unused_fresh:
  "generate_unused candidates reserved = Some (mac, rest) \<Longrightarrow> mac \<notin> reserved"
  by (induction candidates) (auto split: if_splits)

lemma allocate_requested_ok:
  "allocate_requested macs candidates reserved = Inr reserved1 \<Longrightarrow>
   reserved1 = reserved \<union> set macs \<and> set macs \<inter> reserved = {} \<and> distinct macs"
proof (induction macs arbitrary: reserved)
  case Nil
  then show ?case by simp
next
  case (Cons mac macs)
  from Cons.prems have free: "mac \<notin> reserved"
    by (auto simp: allocate_def split: if_splits)
  with Cons.prems have "allocate_requested macs candidates (insert mac reserved) = Inr reserved1"
    by (simp add: allocate_def)
  from Cons.IH [OF this] free show ?case by auto
qed

lemma allocate_requested_duplicate:
  "allocate_requested macs candidates reserved = Inl e \<Longrightarrow>
   \<exists>before mac after. macs = before @ mac # after \<and> e = DuplicateMacAddress mac \<and>
      (mac \<in> reserved \<or> mac \<in> set before)"
proof (induction macs arbitrary: reserved)
  case Nil
  then show ?case by simp
next
  case (Cons m macs)
  show ?case
  proof (cases "m \<in> reserved")
    case True
    with Cons.prems have "e = DuplicateMacAddress m" by (simp add: allocate_def)
    with True have "m # macs = [] @ m # macs \<and> e = DuplicateMacAddress m \<and>
        (m \<in> reserved \<or> m \<in> set [])"
      by simp
    then show ?thesis by blast
  next
    case False
    with Cons.prems have "allocate_requested macs candidates (insert m reserved) = Inl e"
      by (simp add: allocate_def)
    from Cons.IH [OF this] obtain before mac after where
      *: "macs = before @ mac # after" "e = DuplicateMacAddress mac"
         "mac \<in> insert m reserved \<or> mac \<in> set before"
      by blast
    then have "m # macs = (m # before) @ mac # after \<and> e = DuplicateMacAddress mac \<and>
        (mac \<in> reserved \<or> mac \<in> set (m # before))"
      by auto
    then show ?thesis by blast
  qed
qed

lemma allocate_requested_reserved:
  "mac \<in> set macs \<Longrightarrow> mac \<in> reserved \<Longrightarrow>
   \<exists>e. allocate_requested macs candidates reserved = Inl e"
proof (induction macs arbitrary: reserved)
  case Nil
  then show ?case by simp
next
  case (Cons m macs)
  show ?case
  proof (cases "m \<in> reserved")
    case True
    then show ?thesis by (simp add: allocate_def)
  next
    case False
    with Cons.prems have "mac \<in> set macs" "mac \<in> insert m reserved" by auto
    from Cons.IH [OF this] False show ?thesis by (simp add: allocate_def)
  qed
qed

lemma allocate_interfaces_macs:
  "allocate_interfaces ns candidates reserved = Some (ifaces, reserved1) \<Longrightarrow>
   reserved \<subseteq> reserved1 \<and>
   reserved1 \<subseteq> reserved \<union> set (map mac_address ifaces) \<and>
   set (map mac_address ifaces) \<subseteq> reserved1 \<union> set (List.map_filter net_mac ns) \<and>
   set (List.map_filter net_mac ns) \<subseteq> set (map mac_address ifaces) \<and>
   set (map mac_address ifaces) \<inter> reserved \<subseteq> set (List.map_filter net_mac ns) \<and>
   map net_mac ns = map (\<lambda>(n, i). map_option (\<lambda>m. mac_address i) (net_mac n)) (zip ns ifaces) \<and>
   length ifaces = length ns"
proof (induction ns arbitrary: candidates reserved ifaces reserved1)
  case Nil
  then show ?case by simp
next
  case (Cons n ns)
  show ?case
  proof (cases "net_mac n")
    case (Some mac)
    with Cons.prems obtain is1 where
      rec: "allocate_interfaces ns candidates reserved = Some (is1, reserved1)"
      and ifs: "ifaces = \<lparr>iface_id = net_id n, mac_address = mac, auto_mode = net_auto n\<rparr> # is1"
      by (auto split: option.splits)
    from Cons.IH [OF rec] show ?thesis
      by (auto simp: ifs Some)
  next
    case None
    with Cons.prems obtain mac rest r1 is1 where
      gen: "generate_unused candidates reserved = Some (mac, rest)"
      and r1: "r1 = insert mac reserved"
      and rec: "allocate_interfaces ns rest r1 = Some (is1, reserved1)"
      and ifs: "ifaces = \<lparr>iface_id = net_id n, mac_address = mac, auto_mode = net_auto n\<rparr> # is1"
      by (auto simp: allocate_def split: option.splits sum.splits)
    from generate_unused_fresh [OF gen] have fresh: "mac \<notin> reserved" .
    from Cons.IH [OF rec] fresh show ?thesis
      by (auto simp: ifs None r1)
  qed
qed


lemma allocate_macs_ok:
  assumes "allocate_macs req candidates reserved = Some (Inr (default_mac, ifaces, reserved1))"
  shows "reserved1 = reserved \<union> set (default_mac # map mac_address ifaces)"
    and "set (default_mac # map mac_address ifaces) \<inter> reserved = {}"
    and "map net_mac (requested_networks req) =
           map (\<lambda>(n, i). map_option (\<lambda>m. mac_address i) (net_mac n))
             (zip (requested_networks req) ifaces)"
    and "length ifaces = length (requested_networks req)"
    and "set (List.map_filter net_mac (requested_networks req)) \<subseteq> reserved1"
proof -
  let ?explicit = "List.map_filter net_mac (requested_networks req)"
  from assms obtain r1 rest r2 where
    req: "allocate_requested ?explicit candidates reserved = Inr r1"
    and gen: "generate_unused candidates r1 = Some (default_mac, rest)"
    and r2: "r2 = insert default_mac r1"
    and ifs: "allocate_interfaces (requested_networks req) rest r2 = Some (ifaces, reserved1)"
    by (auto simp: allocate_macs_def allocate_def split: sum.splits option.splits)
  note a = allocate_requested_ok [OF req]
  note g = generate_unused_fresh [OF gen]
  note i = allocate_interfaces_macs [OF ifs]
  from a g i r2 show "reserved1 = reserved \<union> set (default_mac # map mac_address ifaces)"
    by auto
  from a g i r2 show "set (default_mac # map mac_address ifaces) \<inter> reserved = {}"
    by auto
  from i show "map net_mac (requested_networks req) =
           map (\<lambda>(n, i). map_option (\<lambda>m. mac_address i) (net_mac n))
             (zip (requested_networks req) ifaces)"
    by blast
  from i show "length ifaces = length (requested_networks req)"
    by blast
  from a i r2 show "set (List.map_filter net_mac (requested_networks req)) \<subseteq> reserved1"
    by auto
qed

lemma allocate_macs_duplicate:
  assumes "mac \<in> set (List.map_filter net_mac (requested_networks req))"
      and "mac \<in> reserved"
  shows "\<exists>before m after.
           allocate_macs req candidates reserved = Some (Inl (DuplicateMacAddress m)) \<and>
           List.map_filter net_mac (requested_networks req) = before @ m # after \<and>
           (m \<in> reserved \<or> m \<in> set before)"
proof -
  from allocate_requested_reserved [OF assms] obtain e where
    e: "allocate_requested (List.map_filter net_mac (requested_networks req)) candidates reserved
          = Inl e"
    by blast
  from allocate_requested_duplicate [OF e] obtain before m after where
    "List.map_filter net_mac (requested_networks req) = before @ m # after"
    "e = DuplicateMacAddress m" "m \<in> reserved \<or> m \<in> set before"
    by blast
  with e show ?thesis by (auto simp: allocate_macs_def)
qed

lemma allocate_macs_error:
  "allocate_macs req candidates reserved = Some (Inl e) \<Longrightarrow> \<exists>m. e = DuplicateMacAddress m"
  by (auto simp: allocate_macs_def allocate_def split: sum.splits option.splits
      dest: allocate_requested_duplicate)

lemma delete_appended:
  "name \<notin> set (map fst xs) \<Longrightarrow> AList.delete name (xs @ [(name, r)]) = xs"
  by (induction xs) (auto simp: AList.delete_eq)

lemma update_appended:
  "name \<notin> set (map fst xs) \<Longrightarrow> AList.update name r' (xs @ [(name, r)]) = xs @ [(name, r')]"
  by (induction xs) auto

lemma launch_backend_throws:
  assumes fresh: "name \<notin> set (map fst (instances d))"
      and throws: "prepare_instance_image_throws ans = Some cause \<or>
                   prepare_instance_image_throws ans = None \<and>
                   create_virtual_machine_throws ans = Some cause"
  shows "launch_backend cfg name vm_desc ans d =
           (Inl (BackendFailure cause),
            d\<lparr>allocated_macs := allocated_macs d - set (macs_of vm_desc),
              backend_calls := backend_calls d @
                [prepare_source_image name, prepare_instance_image name] @
                (if prepare_instance_image_throws ans = None then [create_virtual_machine name]
                 else []) @
                [remove_resources_for name]\<rparr>)"
  using throws
  by (auto simp: launch_backend_def rollback_def release_all_eq delete_appended [OF fresh])

lemma launch_backend_succeeds:
  assumes fresh: "name \<notin> set (map fst (instances d))"
      and quiet: "prepare_instance_image_throws ans = None"
                 "create_virtual_machine_throws ans = None"
  shows "launch_backend cfg name vm_desc ans d =
           (Inr name,
            d\<lparr>instances := instances d @
                [(name, \<lparr>description = vm_desc, state = created_state ans, deleted = False,
                          ssh_username = ''ubuntu'', metadata = [], mounts = []\<rparr>)],
              backend_calls := backend_calls d @
                [prepare_source_image name, prepare_instance_image name,
                 create_virtual_machine name],
              persisted := save_db cfg (instances d @
                [(name, \<lparr>description = vm_desc, state = created_state ans, deleted = False,
                          ssh_username = ''ubuntu'', metadata = [], mounts = []\<rparr>)])\<rparr>)"
  using quiet
  by (simp add: launch_backend_def Let_def update_appended [OF fresh])

lemma launch_backend_result:
  "fst (launch_backend cfg name vm_desc ans d) = Inl e \<Longrightarrow>
   \<exists>cause. e = BackendFailure cause \<and>
     (prepare_instance_image_throws ans = Some cause \<or>
      prepare_instance_image_throws ans = None \<and> create_virtual_machine_throws ans = Some cause)"
  by (auto simp: launch_backend_def Let_def split: option.splits)

lemma resolve_name_fresh:
  "resolve_name req ans d = Inr name \<Longrightarrow> name \<notin> set (map fst (instances d))"
  by (auto simp: resolve_name_def Let_def split: if_splits)

lemma resolve_name_error:
  "resolve_name req ans d = Inl e \<Longrightarrow> \<exists>n. e = NameAlreadyInUse n"
  by (auto simp: resolve_name_def Let_def split: if_splits)

lemma resolve_name_same:
  "set (map fst (instances d')) = set (map fst (instances d)) \<Longrightarrow>
   resolve_name req ans d' = resolve_name req ans d"
  by (simp add: resolve_name_def)

lemma validate_resources_error:
  "validate_resources cfg ans vm_desc = Inl e \<Longrightarrow> \<forall>cause. e \<noteq> BackendFailure cause"
  by (auto simp: validate_resources_def Let_def split: option.splits if_splits)

lemma launch_allocated:
  assumes "resolve_name req ans d = Inr name"
      and "validate_resources cfg ans (requested_description req name) = Inr (validated, warned)"
      and "allocate_macs req (generated_macs ans) (allocated_macs d) =
             Some (Inr (default_mac, ifaces, reserved))"
  shows "launch cfg req ans d =
           (Some (fst (launch_backend cfg name
                         (validated\<lparr>default_mac_address := default_mac,
                                     extra_interfaces := ifaces\<rparr>)
                         ans (d\<lparr>warnings := warnings d @ warned, allocated_macs := reserved\<rparr>))),
            snd (launch_backend cfg name
                   (validated\<lparr>default_mac_address := default_mac, extra_interfaces := ifaces\<rparr>)
                   ans (d\<lparr>warnings := warnings d @ warned, allocated_macs := reserved\<rparr>)))"
  using assms by (simp add: launch_def split: prod.splits)

lemma launch_backend_failure_reached:
  assumes "fst (launch cfg req ans d) = Some (Inl (BackendFailure cause))"
  shows "\<exists>name validated warned default_mac ifaces reserved.
           resolve_name req ans d = Inr name \<and>
           validate_resources cfg ans (requested_description req name) = Inr (validated, warned) \<and>
           allocate_macs req (generated_macs ans) (allocated_macs d) =
             Some (Inr (default_mac, ifaces, reserved)) \<and>
           (prepare_instance_image_throws ans = Some cause \<or>
            prepare_instance_image_throws ans = None \<and>
            create_virtual_machine_throws ans = Some cause)"
proof (cases "resolve_name req ans d")
  case (Inl e)
  with resolve_name_error [OF Inl] assms show ?thesis by (auto simp: launch_def)
next
  case (Inr name)
  show ?thesis
  proof (cases "validate_resources cfg ans (requested_description req name)")
    case (Inl e)
    with validate_resources_error [OF Inl] Inr assms show ?thesis by (auto simp: launch_def)
  next
    case val: (Inr p)
    obtain validated warned where p: "p = (validated, warned)" by (cases p)
    show ?thesis
    proof (cases "allocate_macs req (generated_macs ans) (allocated_macs d)")
      case None
      with Inr val p assms show ?thesis by (simp add: launch_def)
    next
      case (Some a)
      show ?thesis
      proof (cases a)
        case (Inl e)
        with allocate_macs_error [of req "generated_macs ans" "allocated_macs d" e] Some Inr val p assms
        show ?thesis by (auto simp: launch_def)
      next
        case alloc: (Inr t)
        obtain default_mac ifaces reserved where t: "t = (default_mac, ifaces, reserved)"
          by (cases t)
        note reached = launch_allocated [OF Inr val [unfolded p] Some [unfolded alloc t]]
        from assms have "fst (launch_backend cfg name
                         (validated\<lparr>default_mac_address := default_mac,
                                     extra_interfaces := ifaces\<rparr>)
                         ans (d\<lparr>warnings := warnings d @ warned, allocated_macs := reserved\<rparr>))
                    = Inl (BackendFailure cause)"
          by (simp add: reached)
        from launch_backend_result [OF this] Inr val p Some alloc t show ?thesis by auto
      qed
    qed
  qed
qed

lemma all_macs_simps [simp]:
  "all_macs [] = []"
  "all_macs ((name, r) # records) = macs_of (description r) @ all_macs records"
  "all_macs (xs @ ys) = all_macs xs @ all_macs ys"
  by (simp_all add: all_macs_def)

lemma all_macs_member:
  "(name, r) \<in> set records \<Longrightarrow> set (macs_of (description r)) \<subseteq> set (all_macs records)"
  by (induction records) auto

lemma startup_records_consistent:
  assumes "consistent d" "distinct (map fst records)"
      and "set (map fst records) \<inter> set (map fst (instances d)) = {}"
  shows "consistent (startup_records throws records d)"
  using assms
proof (induction records arbitrary: d)
  case Nil
  then show ?case by simp
next
  case (Cons p records)
  obtain name r where p: "p = (name, r)" by (cases p)
  let ?macs = "macs_of (description r)"
  let ?d1 = "if \<not> distinct ?macs \<or> set ?macs \<inter> allocated_macs d \<noteq> {} then d
             else if throws name then
               d\<lparr>backend_calls := backend_calls d @ [create_virtual_machine name]\<rparr>
             else
               d\<lparr>backend_calls := backend_calls d @ [create_virtual_machine name],
                 instances := instances d @ [(name, r)],
                 allocated_macs := allocated_macs d \<union> set ?macs\<rparr>"
  have step: "startup_records throws (p # records) d = startup_records throws records ?d1"
    by (simp add: p Let_def)
  from Cons.prems have c1: "consistent ?d1"
    by (auto simp: consistent_def p)
  from Cons.prems have k1: "set (map fst records) \<inter> set (map fst (instances ?d1)) = {}"
    by (auto simp: p)
  from Cons.prems have "distinct (map fst records)" by simp
  from Cons.IH [OF c1 this k1] show ?case unfolding step .
qed

lemma load_db_names: "map fst (load_db cfg db) = map fst (filter (\<lambda>(name, e). \<not> is_ghost e) db)"
  by (induction db) (auto simp: load_db_def)

lemma startup_consistent:
  "distinct (map fst file) \<Longrightarrow> consistent (startup cfg throws file)"
  unfolding startup_def
  by (rule startup_records_consistent)
     (auto simp: consistent_def load_db_names distinct_map_filter)

lemma consistent_holds:
  "consistent d \<Longrightarrow> (name, r) \<in> set (instances d) \<Longrightarrow>
   set (macs_of (description r)) \<subseteq> allocated_macs d"
  using all_macs_member [of name r "instances d"] by (simp add: consistent_def)

lemma launch_duplicate:
  assumes nm: "resolve_name req ans d = Inr name"
      and val: "validate_resources cfg ans (requested_description req name) = Inr (validated, warned)"
      and dup: "allocate_macs req (generated_macs ans) (allocated_macs d) =
                  Some (Inl (DuplicateMacAddress m))"
  shows "launch cfg req ans d =
           (Some (Inl (DuplicateMacAddress m)), d\<lparr>warnings := warnings d @ warned\<rparr>)"
  using assms by (simp add: launch_def)

lemma repeated_mac_message_parts:
  "sublist ''Repeated MAC'' (repeated_mac_message mac) \<and> sublist mac (repeated_mac_message mac)"
proof -
  have "repeated_mac_message mac = [] @ ''Repeated MAC'' @ ('' address '' @ mac)"
    by (simp add: repeated_mac_message_def)
  then have "sublist ''Repeated MAC'' (repeated_mac_message mac)"
    unfolding sublist_def by blast
  moreover have "repeated_mac_message mac = ''Repeated MAC address '' @ mac @ []"
    by (simp add: repeated_mac_message_def)
  then have "sublist mac (repeated_mac_message mac)"
    unfolding sublist_def by blast
  ultimately show ?thesis by simp
qed

lemma all_macs_disjoint:
  "distinct (all_macs xs) \<Longrightarrow> (x, r) \<in> set xs \<Longrightarrow> (y, s) \<in> set xs \<Longrightarrow> x \<noteq> y \<Longrightarrow>
   set (macs_of (description r)) \<inter> set (macs_of (description s)) = {}"
proof (induction xs)
  case Nil
  then show ?case by simp
next
  case (Cons p xs)
  obtain k v where p: "p = (k, v)" by (cases p)
  from Cons.prems(1) have tail: "distinct (all_macs xs)"
    and head: "set (macs_of (description v)) \<inter> set (all_macs xs) = {}"
    by (auto simp: p)
  consider "(x, r) = (k, v)" "(y, s) \<in> set xs" | "(y, s) = (k, v)" "(x, r) \<in> set xs"
    | "(x, r) \<in> set xs" "(y, s) \<in> set xs"
    using Cons.prems by (auto simp: p)
  then show ?case
  proof cases
    case 1
    with head all_macs_member [of y s xs] show ?thesis by auto
  next
    case 2
    with head all_macs_member [of x r xs] show ?thesis by auto
  next
    case 3
    with Cons.IH [OF tail] Cons.prems(4) show ?thesis by blast
  qed
qed

lemma resolve_name_subset:
  "resolve_name req ans d = Inr name \<Longrightarrow>
   set (map fst (instances d')) \<subseteq> set (map fst (instances d)) \<Longrightarrow>
   resolve_name req ans d' = Inr name"
  by (auto simp: resolve_name_def Let_def split: if_splits)

lemma resolve_name_networks:
  "resolve_name (req\<lparr>requested_networks := ns\<rparr>) ans d = resolve_name req ans d"
  by (simp add: resolve_name_def)

lemma requested_description_networks:
  "requested_description (req\<lparr>requested_networks := ns\<rparr>) name = requested_description req name"
  by (simp add: requested_description_def)

lemma launch_single_reserved:
  assumes nm: "resolve_name req ans d = Inr name"
      and val: "validate_resources cfg ans (requested_description req name) = Inr (validated, warned)"
      and one: "requested_networks req = [\<lparr>net_id = i, net_mac = Some m, net_auto = a\<rparr>]"
      and held: "m \<in> allocated_macs d"
  shows "fst (launch cfg req ans d) = Some (Inl (DuplicateMacAddress m))"
proof -
  from one held have "allocate_macs req (generated_macs ans) (allocated_macs d) =
      Some (Inl (DuplicateMacAddress m))"
    by (simp add: allocate_macs_def allocate_def)
  from launch_duplicate [OF nm val this] show ?thesis by simp
qed

lemma launch_single_free:
  assumes nm: "resolve_name req ans d = Inr name"
      and val: "validate_resources cfg ans (requested_description req name) = Inr (validated, warned)"
      and one: "requested_networks req = [\<lparr>net_id = i, net_mac = Some m, net_auto = a\<rparr>]"
      and free: "m \<notin> allocated_macs d"
      and gen: "generated_macs ans = c # cs" "c \<notin> allocated_macs d" "c \<noteq> m"
      and quiet: "prepare_instance_image_throws ans = None"
                 "create_virtual_machine_throws ans = None"
  shows "fst (launch cfg req ans d) = Some (Inr name)"
    and "allocated_macs (snd (launch cfg req ans d)) = insert c (insert m (allocated_macs d))"
proof -
  let ?ifaces = "[\<lparr>iface_id = i, mac_address = m, auto_mode = a\<rparr>]"
  let ?reserved = "insert c (insert m (allocated_macs d))"
  from one free gen have alloc: "allocate_macs req (generated_macs ans) (allocated_macs d) =
      Some (Inr (c, ?ifaces, ?reserved))"
    by (simp add: allocate_macs_def allocate_def)
  let ?d1 = "d\<lparr>warnings := warnings d @ warned, allocated_macs := ?reserved\<rparr>"
  from resolve_name_fresh [OF nm] have fresh: "name \<notin> set (map fst (instances ?d1))"
    by simp
  note reached = launch_allocated [OF nm val alloc]
  note ok = launch_backend_succeeds [OF fresh quiet]
  show "fst (launch cfg req ans d) = Some (Inr name)"
    unfolding reached ok by simp
  show "allocated_macs (snd (launch cfg req ans d)) = ?reserved"
    unfolding reached ok by simp
qed

lemma delete_soft:
  assumes "map_of (instances d) x = Some r"
  shows "delete_instances cfg False [x] d =
           ([], d\<lparr>instances := AList.update x (r\<lparr>deleted := True, state := Deleted\<rparr>) (instances d),
                  persisted := save_db cfg
                    (AList.update x (r\<lparr>deleted := True, state := Deleted\<rparr>) (instances d))\<rparr>)"
  using assms by (simp add: delete_instances_def delete_one_def)

lemma delete_purge:
  assumes "map_of (instances d) x = Some r"
  shows "delete_instances cfg True [x] d =
           ([], d\<lparr>instances := AList.delete x (instances d),
                  allocated_macs := allocated_macs d - set (macs_of (description r)),
                  persisted := save_db cfg (AList.delete x (instances d))\<rparr>)"
  using assms by (simp add: delete_instances_def delete_one_def release_all_eq)

lemma update_keys_present:
  "map_of xs x = Some r \<Longrightarrow> map fst (AList.update x r' xs) = map fst xs"
  by (induction xs) (auto split: if_splits)

lemma all_macs_update:
  "map_of xs x = Some r \<Longrightarrow> description r' = description r \<Longrightarrow>
   all_macs (AList.update x r' xs) = all_macs xs"
  by (induction xs) (auto split: if_splits)

lemma consistent_soft:
  assumes "consistent d" "map_of (instances d) x = Some r"
  shows "consistent (snd (delete_instances cfg False [x] d))"
  using assms
  by (simp add: delete_soft consistent_def update_keys_present all_macs_update)

lemma purge_effect:
  fixes cfg :: daemon_config
  assumes inv: "consistent d"
      and x: "map_of (instances d) x = Some r"
  defines "purged \<equiv> snd (delete_instances cfg True [x] d)"
  shows "set (macs_of (description r)) \<inter> allocated_macs purged = {}"
    and "map_of (instances purged) x = None"
    and "set (map fst (instances purged)) \<subseteq> set (map fst (instances d))"
    and "allocated_macs purged \<subseteq> allocated_macs d"
    and "\<And>y s. y \<noteq> x \<Longrightarrow> map_of (instances d) y = Some s \<Longrightarrow>
           map_of (instances purged) y = Some s \<and>
           set (macs_of (description s)) \<subseteq> allocated_macs purged"
proof -
  have p: "purged = d\<lparr>instances := AList.delete x (instances d),
                  allocated_macs := allocated_macs d - set (macs_of (description r)),
                  persisted := save_db cfg (AList.delete x (instances d))\<rparr>"
    unfolding purged_def by (simp add: delete_purge [OF x])
  show "set (macs_of (description r)) \<inter> allocated_macs purged = {}"
    by (auto simp: p)
  show "map_of (instances purged) x = None"
    by (simp add: p AList.delete_conv)
  show "set (map fst (instances purged)) \<subseteq> set (map fst (instances d))"
    by (auto simp: p AList.delete_eq)
  show "allocated_macs purged \<subseteq> allocated_macs d"
    by (auto simp: p)
  show "map_of (instances purged) y = Some s \<and>
        set (macs_of (description s)) \<subseteq> allocated_macs purged"
    if "y \<noteq> x" "map_of (instances d) y = Some s" for y s
  proof -
    from x have xr: "(x, r) \<in> set (instances d)" by (rule map_of_SomeD)
    from that(2) have ys: "(y, s) \<in> set (instances d)" by (rule map_of_SomeD)
    from inv have dist: "distinct (all_macs (instances d))"
      and alloc: "allocated_macs d = set (all_macs (instances d))"
      by (simp_all add: consistent_def)
    from all_macs_disjoint [OF dist ys xr that(1)]
    have disj: "set (macs_of (description s)) \<inter> set (macs_of (description r)) = {}" .
    from all_macs_member [OF ys] alloc
    have held: "set (macs_of (description s)) \<subseteq> allocated_macs d" by simp
    from that have "map_of (instances purged) y = Some s"
      by (simp add: p AList.delete_conv)
    moreover from disj held have "set (macs_of (description s)) \<subseteq> allocated_macs purged"
      by (auto simp: p)
    ultimately show ?thesis by simp
  qed
qed

lemma purge_then_launch:
  assumes inv: "consistent d"
      and x: "map_of (instances d) x = Some r"
      and m: "m \<in> set (macs_of (description r))"
      and one: "requested_networks req = [\<lparr>net_id = i, net_mac = Some m, net_auto = a\<rparr>]"
      and nm: "resolve_name req ans d = Inr name"
      and val: "validate_resources cfg ans (requested_description req name) = Inr (validated, warned)"
      and gen: "generated_macs ans = c # cs" "c \<notin> allocated_macs d" "c \<noteq> m"
      and quiet: "prepare_instance_image_throws ans = None"
                 "create_virtual_machine_throws ans = None"
  shows "fst (launch cfg req ans (snd (delete_instances cfg True [x] d))) = Some (Inr name)"
proof -
  let ?purged = "snd (delete_instances cfg True [x] d)"
  note e = purge_effect [OF inv x, where cfg = cfg]
  from e(1) m have free: "m \<notin> allocated_macs ?purged" by auto
  from e(4) gen(2) have c: "c \<notin> allocated_macs ?purged" by auto
  from resolve_name_subset [OF nm e(3)] have nm': "resolve_name req ans ?purged = Inr name" .
  from launch_single_free(1) [OF nm' val one free gen(1) c gen(3) quiet] show ?thesis .
qed

lemma validate_resources_space:
  assumes avail: "bytes_available ans = Some available"
      and mins: "\<not> set_below (num_cores vm_desc) (minimum_cores ans)"
                "\<not> size_set_below (mem_size vm_desc) (minimum_mem ans)"
                "\<not> size_set_below (disk_space vm_desc) (minimum_disk ans)"
  defines "validated \<equiv> vm_desc
             \<lparr>num_cores := filled (filled (num_cores vm_desc) (minimum_cores ans))
                             (Some default_num_cores),
              mem_size := size_filled (size_filled (mem_size vm_desc) (minimum_mem ans))
                             (Some default_memory_size),
              disk_space := size_filled (size_filled (disk_space vm_desc) (minimum_disk ans))
                             (Some default_disk_size)\<rparr>"
  shows "validate_resources cfg ans vm_desc =
           (if available < minimum_image_size ans then
              Inl (InsufficientDiskSpace available (minimum_image_size ans))
            else
              Inr (validated,
                   if available < in_bytes (disk_space validated)
                   then [overcommit_warning (in_bytes (disk_space validated)) available]
                   else []))"
  using avail mins by (simp add: validate_resources_def validated_def Let_def)

lemma startup_records_within:
  "set (map fst (instances (startup_records throws records d)))
     \<subseteq> set (map fst (instances d)) \<union> set (map fst records) \<and>
   set (backend_calls (startup_records throws records d))
     \<subseteq> set (backend_calls d) \<union> create_virtual_machine ` set (map fst records)"
proof (induction records arbitrary: d)
  case Nil
  then show ?case by simp
next
  case (Cons p records)
  obtain name r where p: "p = (name, r)" by (cases p)
  let ?macs = "macs_of (description r)"
  consider (skipped) "\<not> distinct ?macs \<or> set ?macs \<inter> allocated_macs d \<noteq> {}"
    | (thrown) "distinct ?macs" "set ?macs \<inter> allocated_macs d = {}" "throws name"
    | (created) "distinct ?macs" "set ?macs \<inter> allocated_macs d = {}" "\<not> throws name"
    by blast
  then show ?case
  proof cases
    case skipped
    then have "startup_records throws (p # records) d = startup_records throws records d"
      by (simp add: p Let_def)
    with Cons.IH [of d] show ?thesis by (auto simp: p)
  next
    case thrown
    let ?d1 = "d\<lparr>backend_calls := backend_calls d @ [create_virtual_machine name]\<rparr>"
    from thrown have "startup_records throws (p # records) d = startup_records throws records ?d1"
      by (simp add: p Let_def)
    with Cons.IH [of ?d1] show ?thesis by (auto simp: p)
  next
    case created
    let ?d1 = "d\<lparr>backend_calls := backend_calls d @ [create_virtual_machine name],
                 instances := instances d @ [(name, r)],
                 allocated_macs := allocated_macs d \<union> set ?macs\<rparr>"
    from created have "startup_records throws (p # records) d = startup_records throws records ?d1"
      by (simp add: p Let_def)
    with Cons.IH [of ?d1] show ?thesis by (auto simp: p)
  qed
qed

lemma startup_records_exact:
  assumes "distinct (all_macs records)"
      and "set (all_macs records) \<inter> allocated_macs d = {}"
      and "\<forall>n \<in> set (map fst records). \<not> throws n"
  shows "startup_records throws records d =
           d\<lparr>backend_calls := backend_calls d @ map (\<lambda>(n, r). create_virtual_machine n) records,
             instances := instances d @ records,
             allocated_macs := allocated_macs d \<union> set (all_macs records)\<rparr>"
  using assms
proof (induction records arbitrary: d)
  case Nil
  then show ?case by simp
next
  case (Cons p records)
  obtain name r where p: "p = (name, r)" by (cases p)
  let ?macs = "macs_of (description r)"
  let ?d1 = "d\<lparr>backend_calls := backend_calls d @ [create_virtual_machine name],
               instances := instances d @ [(name, r)],
               allocated_macs := allocated_macs d \<union> set ?macs\<rparr>"
  from Cons.prems have ok: "distinct ?macs" "set ?macs \<inter> allocated_macs d = {}" "\<not> throws name"
    by (auto simp: p)
  then have step: "startup_records throws (p # records) d = startup_records throws records ?d1"
    by (simp add: p Let_def)
  from Cons.prems have 1: "distinct (all_macs records)"
    and 2: "set (all_macs records) \<inter> allocated_macs ?d1 = {}"
    and 3: "\<forall>n \<in> set (map fst records). \<not> throws n"
    by (auto simp: p)
  show ?case
    unfolding step Cons.IH [OF 1 2 3] by (simp add: p Un_assoc)
qed

lemma save_db_names: "map fst (save_db cfg records) = map fst records"
  by (induction records) (auto simp: save_db_def)

lemma ghost_not_survivor:
  assumes "distinct (map fst db)" "(n, e) \<in> set db" "is_ghost e"
  shows "n \<notin> set (map fst (filter (\<lambda>(name, e). \<not> is_ghost e) db))"
proof
  assume "n \<in> set (map fst (filter (\<lambda>(name, e). \<not> is_ghost e) db))"
  then obtain e' where e': "(n, e') \<in> set db" "\<not> is_ghost e'" by auto
  from assms(1,2) e'(1) have "e = e'" by (rule eq_key_imp_eq_value)
  with assms(3) e'(2) show False by simp
qed

lemma purge_all_names:
  "set (map fst (persisted (purge_all cfg d))) \<subseteq> set (map fst (instances d))"
proof -
  have "map fst (persisted (purge_all cfg d)) =
      map fst (filter (\<lambda>(name, r). \<not> deleted r) (instances d))"
    by (simp add: purge_all_def Let_def save_db_names)
  then show ?thesis by auto
qed

text \<open>
  Claim C1. When a launch has reserved its MAC addresses and then fails because the backend
  throws, in \<open>prepare_instance_image\<close> or in \<open>create_virtual_machine\<close>, the reserved
  addresses and the registry are as before the call when the failure is reported (and the
  backend has been asked to remove the instance's resources). The same request, sent again
  to a backend that no longer throws, succeeds and holds every address it asked for.
\<close>

theorem launch_failure_releases_macs:
  assumes failed: "launch cfg req ans d = (Some (Inl (BackendFailure cause)), d')"
  defines "retry \<equiv> ans\<lparr>prepare_instance_image_throws := None,
                        create_virtual_machine_throws := None\<rparr>"
  shows "allocated_macs d' = allocated_macs d \<and>
         instances d' = instances d \<and>
         persisted d' = persisted d \<and>
         (\<exists>name. last (backend_calls d') = remove_resources_for name \<and>
            fst (launch cfg req retry d') = Some (Inr name) \<and>
            set (List.map_filter net_mac (requested_networks req))
              \<subseteq> allocated_macs (snd (launch cfg req retry d')))"
proof -
  from failed have "fst (launch cfg req ans d) = Some (Inl (BackendFailure cause))"
    by simp
  from launch_backend_failure_reached [OF this]
  obtain name validated warned default_mac ifaces reserved where
    nm: "resolve_name req ans d = Inr name"
    and val: "validate_resources cfg ans (requested_description req name) = Inr (validated, warned)"
    and alloc: "allocate_macs req (generated_macs ans) (allocated_macs d) =
                  Some (Inr (default_mac, ifaces, reserved))"
    and throws: "prepare_instance_image_throws ans = Some cause \<or>
                 prepare_instance_image_throws ans = None \<and>
                 create_virtual_machine_throws ans = Some cause"
    by blast
  let ?desc = "validated\<lparr>default_mac_address := default_mac, extra_interfaces := ifaces\<rparr>"
  let ?d1 = "d\<lparr>warnings := warnings d @ warned, allocated_macs := reserved\<rparr>"
  from resolve_name_fresh [OF nm] have fresh: "name \<notin> set (map fst (instances ?d1))"
    by simp
  have macs: "macs_of ?desc = default_mac # map mac_address ifaces"
    by (simp add: macs_of_def)
  note a = allocate_macs_ok [OF alloc]
  from a(1,2) have released: "reserved - set (macs_of ?desc) = allocated_macs d"
    unfolding macs by blast
  note thrown = launch_backend_throws [OF fresh throws, of cfg ?desc]
  from failed have d': "d' = snd (launch_backend cfg name ?desc ans ?d1)"
    by (simp add: launch_allocated [OF nm val alloc])
  have state: "allocated_macs d' = allocated_macs d" "instances d' = instances d"
      "persisted d' = persisted d"
      "last (backend_calls d') = remove_resources_for name"
    unfolding d' thrown using released by simp_all
  have nm': "resolve_name req retry d' = Inr name"
    using nm state(2) by (simp add: resolve_name_def retry_def cong: option.case_cong)
  have val': "validate_resources cfg retry (requested_description req name) =
      Inr (validated, warned)"
    using val by (simp add: validate_resources_def retry_def cong: option.case_cong if_cong)
  have alloc': "allocate_macs req (generated_macs retry) (allocated_macs d') =
      Some (Inr (default_mac, ifaces, reserved))"
    using alloc state(1) by (simp add: retry_def)
  let ?d2 = "d'\<lparr>warnings := warnings d' @ warned, allocated_macs := reserved\<rparr>"
  from resolve_name_fresh [OF nm'] have fresh': "name \<notin> set (map fst (instances ?d2))"
    by simp
  have quiet: "prepare_instance_image_throws retry = None"
      "create_virtual_machine_throws retry = None"
    by (simp_all add: retry_def)
  note again = launch_allocated [OF nm' val' alloc']
  note ok = launch_backend_succeeds [OF fresh' quiet, of cfg ?desc]
  note explicit = a(5)
  have retried: "fst (launch cfg req retry d') = Some (Inr name)"
      "allocated_macs (snd (launch cfg req retry d')) = reserved"
    unfolding again ok by simp_all
  from state retried explicit show ?thesis by auto
qed

theorem launch_failure_releases_macs_witness:
  "launch example_config example_launch
     (example_answers\<lparr>create_virtual_machine_throws := Some ''std::exception''\<rparr>) empty_daemon =
   (Some (Inl (BackendFailure ''std::exception'')),
    empty_daemon\<lparr>backend_calls :=
      [prepare_source_image ''pied-piper-valley'', prepare_instance_image ''pied-piper-valley'',
       create_virtual_machine ''pied-piper-valley'', remove_resources_for ''pied-piper-valley'']\<rparr>) \<and>
   fst (launch example_config example_launch example_answers
     (empty_daemon\<lparr>backend_calls :=
        [prepare_source_image ''pied-piper-valley'', prepare_instance_image ''pied-piper-valley'',
         create_virtual_machine ''pied-piper-valley'',
         remove_resources_for ''pied-piper-valley'']\<rparr>)) =
     Some (Inr ''pied-piper-valley'') \<and>
   ''52:54:00:73:76:28'' \<in> allocated_macs (snd (launch example_config example_launch example_answers
     (empty_daemon\<lparr>backend_calls :=
        [prepare_source_image ''pied-piper-valley'', prepare_instance_image ''pied-piper-valley'',
         create_virtual_machine ''pied-piper-valley'',
         remove_resources_for ''pied-piper-valley'']\<rparr>)))"
proof -
  let ?failing = "example_answers\<lparr>create_virtual_machine_throws := Some ''std::exception''\<rparr>"
  let ?d' = "empty_daemon\<lparr>backend_calls :=
      [prepare_source_image ''pied-piper-valley'', prepare_instance_image ''pied-piper-valley'',
       create_virtual_machine ''pied-piper-valley'', remove_resources_for ''pied-piper-valley'']\<rparr>"
  have failed: "launch example_config example_launch ?failing empty_daemon =
      (Some (Inl (BackendFailure ''std::exception'')), ?d')"
    by (simp add: launch_def resolve_name_def validate_resources_def requested_description_def
        allocate_macs_def allocate_def launch_backend_def rollback_def macs_of_def
        release_mac_def set_below_def size_set_below_def filled_def size_filled_def
        default_num_cores_def default_memory_size_def default_disk_size_def
        example_config_def example_launch_def example_answers_def empty_daemon_def
        AList.delete_eq Let_def)
  have retry: "?failing\<lparr>prepare_instance_image_throws := None,
                         create_virtual_machine_throws := None\<rparr> = example_answers"
    by (simp add: example_answers_def)
  have asked: "List.map_filter net_mac (requested_networks example_launch) =
      [''52:54:00:73:76:28'']"
    by (simp add: example_launch_def)
  from launch_failure_releases_macs [OF failed] failed show ?thesis
    by (auto simp: retry asked)
qed

text \<open>
  Claim C2. A launch that asks for a MAC address that is already reserved fails with
  \<open>DuplicateMacAddress\<close>: the error names an address of the request that is reserved (or
  asked for twice in the request), the address itself when it is the only one asked for;
  its message contains \<open>Repeated MAC\<close> and the address; no other address is put in its
  place, and the registry, the reserved addresses, the file and the backend calls are as
  before, so \<open>create_virtual_machine\<close> is not called. The addresses of every instance
  loaded at startup are reserved.
\<close>

theorem launch_rejects_reserved_mac:
  assumes nm: "resolve_name req ans d = Inr name"
      and val: "validate_resources cfg ans (requested_description req name) = Inr (validated, warned)"
      and asked: "mac \<in> set (List.map_filter net_mac (requested_networks req))"
      and held: "mac \<in> allocated_macs d"
  shows "(\<exists>before m after.
           fst (launch cfg req ans d) = Some (Inl (DuplicateMacAddress m)) \<and>
           List.map_filter net_mac (requested_networks req) = before @ m # after \<and>
           (m \<in> allocated_macs d \<or> m \<in> set before) \<and>
           (List.map_filter net_mac (requested_networks req) = [mac] \<longrightarrow> m = mac) \<and>
           sublist ''Repeated MAC'' (error_message_of (DuplicateMacAddress m)) \<and>
           sublist m (error_message_of (DuplicateMacAddress m)) \<and>
           instances (snd (launch cfg req ans d)) = instances d \<and>
           allocated_macs (snd (launch cfg req ans d)) = allocated_macs d \<and>
           backend_calls (snd (launch cfg req ans d)) = backend_calls d \<and>
           persisted (snd (launch cfg req ans d)) = persisted d) \<and>
         (\<forall>db throws n r.
           distinct (map fst db) \<and> (n, r) \<in> set (instances (startup cfg throws db)) \<longrightarrow>
           set (macs_of (description r)) \<subseteq> allocated_macs (startup cfg throws db))"
proof -
  from allocate_macs_duplicate [OF asked held, of "generated_macs ans"]
  obtain before m after where
    dup: "allocate_macs req (generated_macs ans) (allocated_macs d) =
            Some (Inl (DuplicateMacAddress m))"
    and parts: "List.map_filter net_mac (requested_networks req) = before @ m # after"
    and why: "m \<in> allocated_macs d \<or> m \<in> set before"
    by blast
  note failed = launch_duplicate [OF nm val dup]
  have only: "m = mac" if "List.map_filter net_mac (requested_networks req) = [mac]"
    using that parts by (cases before) auto
  from repeated_mac_message_parts [of m]
  have msg: "sublist ''Repeated MAC'' (error_message_of (DuplicateMacAddress m))"
      "sublist m (error_message_of (DuplicateMacAddress m))"
    by simp_all
  have rejected: "\<exists>before m after.
           fst (launch cfg req ans d) = Some (Inl (DuplicateMacAddress m)) \<and>
           List.map_filter net_mac (requested_networks req) = before @ m # after \<and>
           (m \<in> allocated_macs d \<or> m \<in> set before) \<and>
           (List.map_filter net_mac (requested_networks req) = [mac] \<longrightarrow> m = mac) \<and>
           sublist ''Repeated MAC'' (error_message_of (DuplicateMacAddress m)) \<and>
           sublist m (error_message_of (DuplicateMacAddress m)) \<and>
           instances (snd (launch cfg req ans d)) = instances d \<and>
           allocated_macs (snd (launch cfg req ans d)) = allocated_macs d \<and>
           backend_calls (snd (launch cfg req ans d)) = backend_calls d \<and>
           persisted (snd (launch cfg req ans d)) = persisted d"
    using parts why only msg by (intro exI [of _ before] exI [of _ m] exI [of _ after])
      (simp add: failed)
  have loaded: "\<forall>db throws n r.
           distinct (map fst db) \<and> (n, r) \<in> set (instances (startup cfg throws db)) \<longrightarrow>
           set (macs_of (description r)) \<subseteq> allocated_macs (startup cfg throws db)"
    using startup_consistent consistent_holds by blast
  from rejected loaded show ?thesis by blast
qed

theorem launch_rejects_reserved_mac_witness:
  "instances (startup example_config (\<lambda>n. False) zebraphant_file) =
     [(''real-zebraphant'', record_of_entry example_config ''real-zebraphant'' zebraphant_entry)] \<and>
   ''52:54:00:bd:19:41'' \<in> allocated_macs (startup example_config (\<lambda>n. False) zebraphant_file) \<and>
   fst (launch example_config zebraphant_launch example_answers
          (startup example_config (\<lambda>n. False) zebraphant_file)) =
     Some (Inl (DuplicateMacAddress ''52:54:00:bd:19:41'')) \<and>
   backend_calls (snd (launch example_config zebraphant_launch example_answers
          (startup example_config (\<lambda>n. False) zebraphant_file))) =
     [create_virtual_machine ''real-zebraphant'']"
proof -
  let ?d = "startup example_config (\<lambda>n. False) zebraphant_file"
  have ghost: "\<not> is_ghost zebraphant_entry"
    by (simp add: is_ghost_def zebraphant_entry_def)
  have macs: "macs_of (description
      (record_of_entry example_config ''real-zebraphant'' zebraphant_entry)) =
      [''52:54:00:bd:19:41'']"
    by (simp add: macs_of_def record_of_entry_def zebraphant_entry_def)
  have started: "?d =
      \<lparr>instances = [(''real-zebraphant'',
                       record_of_entry example_config ''real-zebraphant'' zebraphant_entry)],
       allocated_macs = {''52:54:00:bd:19:41''},
       persisted = zebraphant_file,
       backend_calls = [create_virtual_machine ''real-zebraphant''],
       warnings = []\<rparr>"
    by (simp add: startup_def load_db_def zebraphant_file_def ghost macs)
  have nm: "resolve_name zebraphant_launch example_answers ?d = Inr ''pied-piper-valley''"
    by (simp add: started resolve_name_def zebraphant_launch_def example_answers_def)
  have val: "validate_resources example_config example_answers
               (requested_description zebraphant_launch ''pied-piper-valley'') =
             Inr ((requested_description zebraphant_launch ''pied-piper-valley'')
                    \<lparr>num_cores := 1, mem_size := MemorySize 1073741824,
                     disk_space := MemorySize 5368709120\<rparr>, [])"
    by (simp add: validate_resources_def requested_description_def zebraphant_launch_def
        example_answers_def set_below_def size_set_below_def filled_def size_filled_def
        default_num_cores_def default_memory_size_def default_disk_size_def)
  have asked: "''52:54:00:bd:19:41''
      \<in> set (List.map_filter net_mac (requested_networks zebraphant_launch))"
    by (simp add: zebraphant_launch_def)
  have only: "List.map_filter net_mac (requested_networks zebraphant_launch) =
      [''52:54:00:bd:19:41'']"
    by (simp add: zebraphant_launch_def)
  have held: "''52:54:00:bd:19:41'' \<in> allocated_macs ?d"
    by (simp add: started)
  from launch_rejects_reserved_mac [OF nm val asked held] only
  have "fst (launch example_config zebraphant_launch example_answers ?d) =
          Some (Inl (DuplicateMacAddress ''52:54:00:bd:19:41''))"
    and "backend_calls (snd (launch example_config zebraphant_launch example_answers ?d)) =
          backend_calls ?d"
    by auto
  with held show ?thesis by (simp add: started)
qed

text \<open>
  Claim C3. In a consistent daemon state, let instance \<open>x\<close> hold the address \<open>m\<close>.
  After a soft delete of \<open>x\<close> the address is still reserved and a launch that asks for
  it fails with \<open>DuplicateMacAddress\<close>. After a delete of \<open>x\<close> with purge (directly, or
  after the soft delete) the address is free and the same launch succeeds. The purge of
  \<open>x\<close> leaves every other record, soft-deleted or not, in the registry with all its
  addresses reserved, so a launch that asks for one of them still fails.
\<close>

theorem purge_releases_delete_retains:
  fixes cfg :: daemon_config
  assumes inv: "consistent d"
      and x: "map_of (instances d) x = Some r"
      and m: "m \<in> set (macs_of (description r))"
      and one: "requested_networks req = [\<lparr>net_id = i, net_mac = Some m, net_auto = a\<rparr>]"
      and nm: "resolve_name req ans d = Inr name"
      and val: "validate_resources cfg ans (requested_description req name) = Inr (validated, warned)"
      and gen: "generated_macs ans = c # cs" "c \<notin> allocated_macs d" "c \<noteq> m"
      and quiet: "prepare_instance_image_throws ans = None"
                 "create_virtual_machine_throws ans = None"
  defines "soft \<equiv> snd (delete_instances cfg False [x] d)"
      and "purged \<equiv> snd (delete_instances cfg True [x] d)"
  shows "fst (delete_instances cfg False [x] d) = [] \<and>
         m \<in> allocated_macs soft \<and>
         fst (launch cfg req ans soft) = Some (Inl (DuplicateMacAddress m)) \<and>
         fst (delete_instances cfg True [x] d) = [] \<and>
         m \<notin> allocated_macs purged \<and>
         fst (launch cfg req ans purged) = Some (Inr name) \<and>
         fst (launch cfg req ans (snd (delete_instances cfg True [x] soft))) = Some (Inr name) \<and>
         (\<forall>y s m'. y \<noteq> x \<and> map_of (instances d) y = Some s \<and>
              m' \<in> set (macs_of (description s)) \<longrightarrow>
            map_of (instances purged) y = Some s \<and>
            m' \<in> allocated_macs purged \<and>
            fst (launch cfg
                   (req\<lparr>requested_networks := [\<lparr>net_id = i, net_mac = Some m', net_auto = a\<rparr>]\<rparr>)
                   ans purged) = Some (Inl (DuplicateMacAddress m')))"
proof -
  from x have xr: "(x, r) \<in> set (instances d)" by (rule map_of_SomeD)
  from inv all_macs_member [OF xr] m have held: "m \<in> allocated_macs d"
    by (auto simp: consistent_def)
  note s = delete_soft [OF x, of cfg]
  have soft1: "fst (delete_instances cfg False [x] d) = []"
    by (simp add: s)
  have soft2: "m \<in> allocated_macs soft"
    using held by (simp add: soft_def s)
  have keys: "set (map fst (instances soft)) = set (map fst (instances d))"
    by (simp add: soft_def s update_keys_present [OF x])
  from nm have nm_soft: "resolve_name req ans soft = Inr name"
    by (simp add: resolve_name_same [OF keys])
  from launch_single_reserved [OF nm_soft val one soft2]
  have soft3: "fst (launch cfg req ans soft) = Some (Inl (DuplicateMacAddress m))" .
  have purge1: "fst (delete_instances cfg True [x] d) = []"
    by (simp add: delete_purge [OF x])
  note e = purge_effect [OF inv x, where cfg = cfg, folded purged_def]
  from e(1) m have purge2: "m \<notin> allocated_macs purged" by auto
  from purge_then_launch [OF inv x m one nm val gen quiet]
  have purge3: "fst (launch cfg req ans purged) = Some (Inr name)"
    by (simp add: purged_def)
  have inv_soft: "consistent soft"
    unfolding soft_def using inv x by (rule consistent_soft)
  have x_soft: "map_of (instances soft) x = Some (r\<lparr>deleted := True, state := Deleted\<rparr>)"
    by (simp add: soft_def s AList.update_conv')
  have m_soft: "m \<in> set (macs_of (description (r\<lparr>deleted := True, state := Deleted\<rparr>)))"
    using m by simp
  have c_soft: "c \<notin> allocated_macs soft"
    using gen(2) by (simp add: soft_def s)
  from purge_then_launch [OF inv_soft x_soft m_soft one nm_soft val gen(1) c_soft gen(3) quiet]
  have purge4: "fst (launch cfg req ans (snd (delete_instances cfg True [x] soft))) =
      Some (Inr name)" .
  have others: "map_of (instances purged) y = Some s \<and>
            m' \<in> allocated_macs purged \<and>
            fst (launch cfg
                   (req\<lparr>requested_networks := [\<lparr>net_id = i, net_mac = Some m', net_auto = a\<rparr>]\<rparr>)
                   ans purged) = Some (Inl (DuplicateMacAddress m'))"
    if "y \<noteq> x" "map_of (instances d) y = Some s" "m' \<in> set (macs_of (description s))"
    for y s m'
  proof -
    let ?req = "req\<lparr>requested_networks := [\<lparr>net_id = i, net_mac = Some m', net_auto = a\<rparr>]\<rparr>"
    from e(5) [OF that(1,2)] that(3)
    have kept: "map_of (instances purged) y = Some s" and still: "m' \<in> allocated_macs purged"
      by auto
    from resolve_name_subset [OF nm e(3)]
    have nm': "resolve_name ?req ans purged = Inr name"
      by (simp add: resolve_name_networks)
    from val have val': "validate_resources cfg ans (requested_description ?req name) =
        Inr (validated, warned)"
      by (simp add: requested_description_networks)
    have one': "requested_networks ?req = [\<lparr>net_id = i, net_mac = Some m', net_auto = a\<rparr>]"
      by simp
    from launch_single_reserved [OF nm' val' one' still] kept still show ?thesis by simp
  qed
  from soft1 soft2 soft3 purge1 purge2 purge3 purge4 others show ?thesis by blast
qed

theorem purge_releases_delete_retains_witness:
  "consistent three_vms \<and>
   fst (launch example_config (launch_with_mac ''01:23:45:67:89:ab'') fresh_answers
          (snd (delete_instances example_config False [''vm3''] three_vms))) =
     Some (Inl (DuplicateMacAddress ''01:23:45:67:89:ab'')) \<and>
   fst (launch example_config (launch_with_mac ''01:23:45:67:89:ab'') fresh_answers
          (snd (delete_instances example_config True [''vm3''] three_vms))) =
     Some (Inr ''pied-piper-valley'') \<and>
   fst (launch example_config (launch_with_mac ''52:54:00:73:76:28'') fresh_answers
          (snd (delete_instances example_config True [''vm3''] three_vms))) =
     Some (Inl (DuplicateMacAddress ''52:54:00:73:76:28''))"
proof -
  let ?r3 = "vm_record ''vm3'' ''52:54:00:00:00:03'' ''01:23:45:67:89:ab'' False"
  let ?r1 = "vm_record ''vm1'' ''52:54:00:00:00:01'' ''52:54:00:73:76:28'' True"
  have macs: "macs_of (description (vm_record n dm em del)) = [dm, em]" for n dm em del
    by (simp add: macs_of_def vm_record_def)
  have inv: "consistent three_vms"
    by (simp add: consistent_def three_vms_def macs)
  have x: "map_of (instances three_vms) ''vm3'' = Some ?r3"
    by (simp add: three_vms_def)
  have y: "''vm1'' \<noteq> ''vm3''" "map_of (instances three_vms) ''vm1'' = Some ?r1"
    by (simp_all add: three_vms_def)
  have m: "''01:23:45:67:89:ab'' \<in> set (macs_of (description ?r3))"
    by (simp add: macs)
  have m1: "''52:54:00:73:76:28'' \<in> set (macs_of (description ?r1))"
    by (simp add: macs)
  have one: "requested_networks (launch_with_mac ''01:23:45:67:89:ab'') =
      [\<lparr>net_id = ''eth0'', net_mac = Some ''01:23:45:67:89:ab'', net_auto = True\<rparr>]"
    by (simp add: launch_with_mac_def)
  have other: "(launch_with_mac ''01:23:45:67:89:ab'')
      \<lparr>requested_networks :=
         [\<lparr>net_id = ''eth0'', net_mac = Some ''52:54:00:73:76:28'', net_auto = True\<rparr>]\<rparr> =
      launch_with_mac ''52:54:00:73:76:28''"
    by (simp add: launch_with_mac_def)
  have nm: "resolve_name (launch_with_mac ''01:23:45:67:89:ab'') fresh_answers three_vms =
      Inr ''pied-piper-valley''"
    by (simp add: resolve_name_def launch_with_mac_def fresh_answers_def example_answers_def
        three_vms_def)
  have val: "validate_resources example_config fresh_answers
               (requested_description (launch_with_mac ''01:23:45:67:89:ab'')
                  ''pied-piper-valley'') =
             Inr ((requested_description (launch_with_mac ''01:23:45:67:89:ab'')
                     ''pied-piper-valley'')
                    \<lparr>num_cores := 1, mem_size := MemorySize 1073741824,
                     disk_space := MemorySize 5368709120\<rparr>, [])"
    by (simp add: validate_resources_def requested_description_def launch_with_mac_def
        fresh_answers_def example_answers_def set_below_def size_set_below_def filled_def size_filled_def
        default_num_cores_def default_memory_size_def default_disk_size_def)
  have gen: "generated_macs fresh_answers = ''52:54:00:00:00:09'' # []"
      "''52:54:00:00:00:09'' \<notin> allocated_macs three_vms"
      "''52:54:00:00:00:09'' \<noteq> ''01:23:45:67:89:ab''"
    by (simp_all add: fresh_answers_def three_vms_def)
  have quiet: "prepare_instance_image_throws fresh_answers = None"
      "create_virtual_machine_throws fresh_answers = None"
    by (simp_all add: fresh_answers_def example_answers_def)
  note claim = purge_releases_delete_retains [OF inv x m one nm val gen quiet]
  note soft = claim [THEN conjunct2, THEN conjunct2, THEN conjunct1]
  note purged = claim [THEN conjunct2, THEN conjunct2, THEN conjunct2, THEN conjunct2,
      THEN conjunct2, THEN conjunct1]
  note others = claim [THEN conjunct2, THEN conjunct2, THEN conjunct2, THEN conjunct2,
      THEN conjunct2, THEN conjunct2, THEN conjunct2, rule_format]
  have "''vm1'' \<noteq> ''vm3'' \<and> map_of (instances three_vms) ''vm1'' = Some ?r1 \<and>
      ''52:54:00:73:76:28'' \<in> set (macs_of (description ?r1))"
    using y m1 by (simp only: simp_thms)
  from others [OF this]
  have kept: "fst (launch example_config (launch_with_mac ''52:54:00:73:76:28'')
          fresh_answers (snd (delete_instances example_config True [''vm3''] three_vms))) =
     Some (Inl (DuplicateMacAddress ''52:54:00:73:76:28''))"
    by (simp only: other)
  from inv soft purged kept show ?thesis by (simp only: simp_thms)
qed

text \<open>
  Claim C4. \<open>load\<close> has no error to report: it gives the registry of the entries that are
  not ghosts. For a file with unique keys, an entry whose fields are all zero or empty (a
  ghost) is not in the registry after startup, the backend is never asked for a handle for
  it, and it is in no file written afterwards (by a save of the registry, or by purge).
  When the surviving entries are sound (their addresses differ and the backend does not
  throw for them), the registry holds exactly the survivors, the backend is asked exactly
  once for each of them, and a save writes exactly their entries.
\<close>

theorem ghosts_are_dropped:
  fixes cfg :: daemon_config and throws :: "string \<Rightarrow> bool"
  assumes keys: "distinct (map fst db)"
  defines "survivors \<equiv> map fst (filter (\<lambda>(name, e). \<not> is_ghost e) db)"
      and "d \<equiv> startup cfg throws db"
  shows "map fst (load_db cfg db) = survivors \<and>
         (\<forall>n e. (n, e) \<in> set db \<and> is_ghost e \<longrightarrow>
            n \<notin> set survivors \<and>
            n \<notin> set (map fst (instances d)) \<and>
            create_virtual_machine n \<notin> set (backend_calls d) \<and>
            n \<notin> set (map fst (save_db cfg (instances d))) \<and>
            n \<notin> set (map fst (persisted (purge_all cfg d)))) \<and>
         (distinct (all_macs (load_db cfg db)) \<and> (\<forall>n \<in> set survivors. \<not> throws n) \<longrightarrow>
            map fst (instances d) = survivors \<and>
            backend_calls d = map create_virtual_machine survivors \<and>
            map fst (save_db cfg (instances d)) = survivors)"
proof -
  have loaded: "map fst (load_db cfg db) = survivors"
    by (simp add: survivors_def load_db_names)
  have within: "set (map fst (instances d)) \<subseteq> set survivors"
      "set (backend_calls d) \<subseteq> create_virtual_machine ` set survivors"
    unfolding d_def startup_def loaded [symmetric]
    using startup_records_within [of throws "load_db cfg db"
        "\<lparr>instances = [], allocated_macs = {}, persisted = db, backend_calls = [],
          warnings = []\<rparr>"]
    by simp_all
  have ghosts: "n \<notin> set survivors \<and>
            n \<notin> set (map fst (instances d)) \<and>
            create_virtual_machine n \<notin> set (backend_calls d) \<and>
            n \<notin> set (map fst (save_db cfg (instances d))) \<and>
            n \<notin> set (map fst (persisted (purge_all cfg d)))"
    if "(n, e) \<in> set db" "is_ghost e" for n e
  proof -
    from ghost_not_survivor [OF keys that] have out: "n \<notin> set survivors"
      by (simp add: survivors_def)
    with within have "n \<notin> set (map fst (instances d))"
      "create_virtual_machine n \<notin> set (backend_calls d)"
      by auto
    with out purge_all_names [of cfg d] show ?thesis
      by (auto simp: save_db_names)
  qed
  have exact: "map fst (instances d) = survivors \<and>
            backend_calls d = map create_virtual_machine survivors \<and>
            map fst (save_db cfg (instances d)) = survivors"
    if "distinct (all_macs (load_db cfg db))" "\<forall>n \<in> set survivors. \<not> throws n"
  proof -
    from that(2) have quiet: "\<forall>n \<in> set (map fst (load_db cfg db)). \<not> throws n"
      by (simp add: loaded)
    have calls: "map (\<lambda>(n, r). create_virtual_machine n) records =
        map create_virtual_machine (map fst records)" for records :: "(string \<times> InstanceRecord) list"
      by (induction records) auto
    from startup_records_exact [OF that(1) _ quiet] show ?thesis
      by (simp add: d_def startup_def save_db_names loaded calls)
  qed
  from loaded ghosts exact show ?thesis by blast
qed

theorem ghosts_are_dropped_witness:
  "is_ghost ghost_entry \<and>
   map fst (instances (startup example_config (\<lambda>n. False) example_file)) =
     [''valid1'', ''valid2''] \<and>
   backend_calls (startup example_config (\<lambda>n. False) example_file) =
     [create_virtual_machine ''valid1'', create_virtual_machine ''valid2''] \<and>
   map fst (save_db example_config (instances (startup example_config (\<lambda>n. False) example_file))) =
     [''valid1'', ''valid2''] \<and>
   ''ghost1'' \<notin> set (map fst (persisted (purge_all example_config
                 (startup example_config (\<lambda>n. False) example_file))))"
proof -
  have ghost: "is_ghost ghost_entry"
    by (simp add: is_ghost_def ghost_entry_def)
  have valid: "\<not> is_ghost (valid_entry b)" for b
    by (simp add: is_ghost_def valid_entry_def)
  have keys: "distinct (map fst example_file)"
    by (simp add: example_file_def)
  have survivors: "map fst (filter (\<lambda>(name, e). \<not> is_ghost e) example_file) =
      [''valid1'', ''valid2'']"
    by (simp add: example_file_def ghost valid)
  have loaded: "load_db example_config example_file =
      [(''valid1'', record_of_entry example_config ''valid1'' (valid_entry ''56'')),
       (''valid2'', record_of_entry example_config ''valid2'' (valid_entry ''78''))]"
    by (simp add: load_db_def example_file_def ghost valid)
  have macs: "all_macs (load_db example_config example_file) =
      [''ab:cd:ef:12:34:56'', ''ab:cd:ef:12:34:78'']"
    unfolding loaded by (simp add: macs_of_def record_of_entry_def valid_entry_def)
  have sound: "distinct (all_macs (load_db example_config example_file)) \<and>
      (\<forall>n \<in> set (map fst (filter (\<lambda>(name, e). \<not> is_ghost e) example_file)). \<not> False)"
    by (simp add: macs)
  have member: "(''ghost1'', ghost_entry) \<in> set example_file \<and> is_ghost ghost_entry"
    by (simp add: example_file_def ghost)
  note claim = ghosts_are_dropped [OF keys, of example_config "\<lambda>n. False"]
  note dropped = claim [THEN conjunct2, THEN conjunct1, rule_format, OF member]
  note exact = claim [THEN conjunct2, THEN conjunct2, rule_format, OF sound]
  from ghost dropped exact show ?thesis
    by (simp add: survivors)
qed

text \<open>
  Claim C6. For a launch whose name is free and whose resources are not below the
  workflow's minimums: when the bytes available in the data directory are strictly below
  the image's minimum size, the launch fails with \<open>InsufficientDiskSpace\<close>, whose message
  says that the available disk is below the minimum for this image, and the daemon's state
  is untouched, so no backend call is made. When the available bytes reach the image's
  minimum but are fewer than the disk the instance reserves, the launch goes on: if the
  addresses can be allocated and the backend does not throw, it succeeds, the backend has
  created the machine, and the one thing logged is the warning that more disk is reserved
  than is available.
\<close>

theorem launch_checks_disk_space:
  assumes nm: "resolve_name req ans d = Inr name"
      and avail: "bytes_available ans = Some available"
      and mins: "\<not> set_below (requested_cores req) (minimum_cores ans)"
                "\<not> size_set_below (requested_mem req) (minimum_mem ans)"
                "\<not> size_set_below (requested_disk req) (minimum_disk ans)"
  defines "disk \<equiv> in_bytes (size_filled (size_filled (requested_disk req) (minimum_disk ans))
                                 (Some default_disk_size))"
  shows "(available < minimum_image_size ans \<longrightarrow>
            launch cfg req ans d =
              (Some (Inl (InsufficientDiskSpace available (minimum_image_size ans))), d) \<and>
            error_message_of (InsufficientDiskSpace available (minimum_image_size ans)) =
              ''Available disk ('' @ string_of_nat available @
              '' bytes) below minimum for this image ('' @
              string_of_nat (minimum_image_size ans) @ '' bytes)'') \<and>
         (minimum_image_size ans \<le> available \<and> available < disk \<and>
          (\<exists>default_mac ifaces reserved.
             allocate_macs req (generated_macs ans) (allocated_macs d) =
               Some (Inr (default_mac, ifaces, reserved))) \<and>
          prepare_instance_image_throws ans = None \<and>
          create_virtual_machine_throws ans = None \<longrightarrow>
            fst (launch cfg req ans d) = Some (Inr name) \<and>
            warnings (snd (launch cfg req ans d)) =
              warnings d @
              [''Reserving more disk space ('' @ string_of_nat disk @
               '' bytes) than available ('' @ string_of_nat available @ '' bytes)''] \<and>
            create_virtual_machine name \<in> set (backend_calls (snd (launch cfg req ans d))))"
proof -
  let ?requested = "requested_description req name"
  from mins have mins': "\<not> set_below (num_cores ?requested) (minimum_cores ans)"
      "\<not> size_set_below (mem_size ?requested) (minimum_mem ans)"
      "\<not> size_set_below (disk_space ?requested) (minimum_disk ans)"
    by (simp_all add: requested_description_def)
  note v = validate_resources_space [OF avail mins', of cfg]
  have disk: "in_bytes (size_filled (size_filled (disk_space ?requested) (minimum_disk ans))
                          (Some default_disk_size)) = disk"
    by (simp add: disk_def requested_description_def)
  have low: "launch cfg req ans d =
              (Some (Inl (InsufficientDiskSpace available (minimum_image_size ans))), d) \<and>
            error_message_of (InsufficientDiskSpace available (minimum_image_size ans)) =
              ''Available disk ('' @ string_of_nat available @
              '' bytes) below minimum for this image ('' @
              string_of_nat (minimum_image_size ans) @ '' bytes)''"
    if "available < minimum_image_size ans"
    using that by (simp add: launch_def nm v insufficient_disk_message_def)
  have over: "fst (launch cfg req ans d) = Some (Inr name) \<and>
            warnings (snd (launch cfg req ans d)) =
              warnings d @
              [''Reserving more disk space ('' @ string_of_nat disk @
               '' bytes) than available ('' @ string_of_nat available @ '' bytes)''] \<and>
            create_virtual_machine name \<in> set (backend_calls (snd (launch cfg req ans d)))"
    if enough: "minimum_image_size ans \<le> available" and more: "available < disk"
      and alloc: "allocate_macs req (generated_macs ans) (allocated_macs d) =
               Some (Inr (default_mac, ifaces, reserved))"
      and quiet: "prepare_instance_image_throws ans = None"
                 "create_virtual_machine_throws ans = None"
    for default_mac ifaces reserved
  proof -
    from enough more have val: "validate_resources cfg ans ?requested =
        Inr (?requested
             \<lparr>num_cores := filled (filled (num_cores ?requested) (minimum_cores ans))
                             (Some default_num_cores),
              mem_size := size_filled (size_filled (mem_size ?requested) (minimum_mem ans))
                             (Some default_memory_size),
              disk_space := size_filled (size_filled (disk_space ?requested) (minimum_disk ans))
                             (Some default_disk_size)\<rparr>,
             [overcommit_warning disk available])"
      by (simp add: v disk)
    let ?d1 = "d\<lparr>warnings := warnings d @ [overcommit_warning disk available],
                  allocated_macs := reserved\<rparr>"
    from resolve_name_fresh [OF nm] have fresh: "name \<notin> set (map fst (instances ?d1))"
      by simp
    note reached = launch_allocated [OF nm val alloc]
    note ok = launch_backend_succeeds [OF fresh quiet]
    show ?thesis
      unfolding reached ok by (simp add: overcommit_warning_def)
  qed
  from low over show ?thesis by blast
qed

theorem launch_checks_disk_space_witness:
  "launch example_config example_launch
     (example_answers\<lparr>bytes_available := Some 0, minimum_image_size := 1\<rparr>) empty_daemon =
     (Some (Inl (InsufficientDiskSpace 0 1)), empty_daemon) \<and>
   error_message_of (InsufficientDiskSpace 0 1) =
     ''Available disk (0 bytes) below minimum for this image (1 bytes)'' \<and>
   fst (launch example_config example_launch (example_answers\<lparr>bytes_available := Some 0\<rparr>)
          empty_daemon) = Some (Inr ''pied-piper-valley'') \<and>
   warnings (snd (launch example_config example_launch
                    (example_answers\<lparr>bytes_available := Some 0\<rparr>) empty_daemon)) =
     [''Reserving more disk space (5368709120 bytes) than available (0 bytes)'']"
proof -
  let ?low = "example_answers\<lparr>bytes_available := Some 0, minimum_image_size := 1\<rparr>"
  let ?over = "example_answers\<lparr>bytes_available := Some 0\<rparr>"
  have digits: "string_of_nat 0 = ''0''" "string_of_nat (Suc 0) = ''1''"
      "string_of_nat 5368709120 = ''5368709120''"
    by (simp_all add: string_of_nat.simps digit_char_def)
  have nm: "resolve_name example_launch ans empty_daemon = Inr ''pied-piper-valley''"
    if "implied_name ans = None" "generated_name ans = ''pied-piper-valley''"
    for ans :: launch_answers
    using that by (simp add: resolve_name_def example_launch_def empty_daemon_def)
  have nm_low: "resolve_name example_launch ?low empty_daemon = Inr ''pied-piper-valley''"
    by (rule nm) (simp_all add: example_answers_def)
  have nm_over: "resolve_name example_launch ?over empty_daemon = Inr ''pied-piper-valley''"
    by (rule nm) (simp_all add: example_answers_def)
  have avail: "bytes_available ?low = Some 0" "bytes_available ?over = Some 0"
    by simp_all
  have mins: "\<not> set_below (requested_cores example_launch) (minimum_cores ans)"
      "\<not> size_set_below (requested_mem example_launch) (minimum_mem ans)"
      "\<not> size_set_below (requested_disk example_launch) (minimum_disk ans)"
    for ans :: launch_answers
    by (simp_all add: set_below_def size_set_below_def example_launch_def split: option.splits)
  have sizes: "minimum_image_size ?low = 1" "minimum_image_size ?over = 0"
    by (simp_all add: example_answers_def)
  have disk: "in_bytes (size_filled (size_filled (requested_disk example_launch)
      (minimum_disk ?over)) (Some default_disk_size)) = 5368709120"
      "in_bytes (size_filled (size_filled (requested_disk example_launch)
      (minimum_disk example_answers)) (Some default_disk_size)) = 5368709120"
    by (simp_all add: size_filled_def example_launch_def example_answers_def
        default_disk_size_def)
  have alloc: "\<exists>default_mac ifaces reserved.
      allocate_macs example_launch (generated_macs ?over) (allocated_macs empty_daemon) =
        Some (Inr (default_mac, ifaces, reserved))"
    by (simp add: allocate_macs_def allocate_def example_launch_def example_answers_def
        empty_daemon_def)
  have quiet: "prepare_instance_image_throws ?over = None"
      "create_virtual_machine_throws ?over = None"
    by (simp_all add: example_answers_def)
  note low = launch_checks_disk_space [OF nm_low avail(1) mins, where cfg = example_config,
      THEN conjunct1, rule_format]
  note over = launch_checks_disk_space [OF nm_over avail(2) mins, where cfg = example_config,
      THEN conjunct2, rule_format]
  have "(0::nat) < minimum_image_size ?low"
    by (simp add: sizes)
  from low [OF this]
  have 1: "launch example_config example_launch ?low empty_daemon =
      (Some (Inl (InsufficientDiskSpace 0 1)), empty_daemon)"
    and 2: "error_message_of (InsufficientDiskSpace 0 1) =
      ''Available disk (0 bytes) below minimum for this image (1 bytes)''"
    by (simp_all add: sizes digits)
  have "minimum_image_size ?over \<le> 0 \<and>
      0 < in_bytes (size_filled (size_filled (requested_disk example_launch)
            (minimum_disk ?over)) (Some default_disk_size)) \<and>
      (\<exists>default_mac ifaces reserved.
         allocate_macs example_launch (generated_macs ?over) (allocated_macs empty_daemon) =
           Some (Inr (default_mac, ifaces, reserved))) \<and>
      prepare_instance_image_throws ?over = None \<and>
      create_virtual_machine_throws ?over = None"
    using alloc by (simp add: sizes disk quiet)
  from over [OF this]
  have 3: "fst (launch example_config example_launch ?over empty_daemon) =
      Some (Inr ''pied-piper-valley'')"
    and 4: "warnings (snd (launch example_config example_launch ?over empty_daemon)) =
      [''Reserving more disk space (5368709120 bytes) than available (0 bytes)'']"
    by (simp_all add: disk digits empty_daemon_def)
  from 1 2 3 4 show ?thesis by (simp only: simp_thms)
qed
end
